theory Spec2Isabelle
  imports Main
begin

section \<open>Library functions the handlers call\<close>

text \<open>
  The program is a single Go file, \<^verbatim>\<open>main.go\<close>. Its handlers call a few functions of
  Go's standard library whose results decide the branches taken; those are embedded here
  after the library's own source (package \<^verbatim>\<open>net\<close>, file \<^verbatim>\<open>ipsock.go\<close>, and package
  \<^verbatim>\<open>net/textproto\<close>). A Go string is a sequence of bytes, as \<^typ>\<open>string\<close> is.
\<close>

text \<open>\<^verbatim>\<open>bytealg.IndexByteString\<close> and \<^verbatim>\<open>bytealg.LastIndexByteString\<close>: the index of the
  first (last) occurrence of a byte, or -1.\<close>

fun IndexByteString :: "string \<Rightarrow> char \<Rightarrow> int" where
  "IndexByteString [] c = -1"
| "IndexByteString (x # xs) c =
     (if x = c then 0
      else (let i = IndexByteString xs c in if i < 0 then -1 else i + 1))"

fun LastIndexByteString :: "string \<Rightarrow> char \<Rightarrow> int" where
  "LastIndexByteString [] c = -1"
| "LastIndexByteString (x # xs) c =
     (let i = LastIndexByteString xs c in
      if 0 \<le> i then i + 1 else if x = c then 0 else -1)"

text \<open>The slice expression \<^verbatim>\<open>s[a:b]\<close>, used only with \<open>0 \<le> a \<le> b \<le> len(s)\<close>.\<close>

definition slice :: "string \<Rightarrow> int \<Rightarrow> int \<Rightarrow> string" where
  "slice s a b = take (nat (b - a)) (drop (nat a) s)"

text \<open>\<^verbatim>\<open>net.AddrError\<close> and its \<^verbatim>\<open>Error()\<close> method.\<close>

record AddrError =
  Err :: string
  Addr :: string

definition AddrError_Error :: "AddrError \<Rightarrow> string" where
  "AddrError_Error e =
     (if Addr e \<noteq> [] then ''address '' @ Addr e @ '': '' @ Err e else Err e)"

definition missingPort :: string where
  "missingPort = ''missing port in address''"

definition tooManyColons :: string where
  "tooManyColons = ''too many colons in address''"

definition addrErr :: "string \<Rightarrow> string \<Rightarrow> AddrError + (string \<times> string)" where
  "addrErr addr why = Inl \<lparr>Err = why, Addr = addr\<rparr>"

text \<open>
  The common tail of \<^verbatim>\<open>net.SplitHostPort\<close>: with the host found and the offsets \<open>j\<close>, \<open>k\<close>
  set, no further \<^verbatim>\<open>[\<close> may stand from \<open>j\<close> on and no further \<^verbatim>\<open>]\<close> from \<open>k\<close> on;
  the port is everything after the last colon, at index \<open>i\<close>.
\<close>

definition SplitHostPort_tail ::
    "string \<Rightarrow> string \<Rightarrow> int \<Rightarrow> int \<Rightarrow> int \<Rightarrow> AddrError + (string \<times> string)" where
  "SplitHostPort_tail hostport host j k i =
     (if 0 \<le> IndexByteString (drop (nat j) hostport) (CHR ''['') then
        addrErr hostport (''unexpected '' @ [CHR 0x27, CHR ''['', CHR 0x27] @ '' in address'')
      else if 0 \<le> IndexByteString (drop (nat k) hostport) (CHR '']'') then
        addrErr hostport (''unexpected '' @ [CHR 0x27, CHR '']'', CHR 0x27] @ '' in address'')
      else Inr (host, drop (nat (i + 1)) hostport))"

text \<open>
  \<^verbatim>\<open>net.SplitHostPort\<close>, as in the current releases of Go. The port starts after the last
  colon. A host in square brackets must end just before that colon; a host without
  brackets must not contain a colon. Neither an empty host nor an empty port is an error.
  The index \<open>hostport[0]\<close> is read only when a colon was found, so the string is not empty
  there.
\<close>

definition SplitHostPort :: "string \<Rightarrow> AddrError + (string \<times> string)" where
  "SplitHostPort hostport =
     (let i = LastIndexByteString hostport (CHR '':'') in
      if i < 0 then addrErr hostport missingPort
      else if hostport ! 0 = CHR ''['' then
        (let e = IndexByteString hostport (CHR '']'') in
         if e < 0 then
           addrErr hostport (''missing '' @ [CHR 0x27, CHR '']'', CHR 0x27] @ '' in address'')
         else if e + 1 = int (length hostport) then addrErr hostport missingPort
         else if e + 1 = i then
           SplitHostPort_tail hostport (slice hostport 1 e) 1 (e + 1) i
         else if hostport ! nat (e + 1) = CHR '':'' then addrErr hostport tooManyColons
         else addrErr hostport missingPort)
      else
        (let host = slice hostport 0 i in
         if 0 \<le> IndexByteString host (CHR '':'') then addrErr hostport tooManyColons
         else SplitHostPort_tail hostport host 0 0 i))"

text \<open>\<^verbatim>\<open>net.JoinHostPort\<close>: a host with a colon is taken for an IPv6 literal.\<close>

definition JoinHostPort :: "string \<Rightarrow> string \<Rightarrow> string" where
  "JoinHostPort host port =
     (if 0 \<le> IndexByteString host (CHR '':'') then ''['' @ host @ '']:'' @ port
      else host @ '':'' @ port)"

text \<open>
  \<^verbatim>\<open>textproto.CanonicalMIMEHeaderKey\<close>, through which \<^verbatim>\<open>http.Header.Set\<close> and
  \<^verbatim>\<open>http.Header.Del\<close> pass their key: a key made of token bytes only gets an upper-case
  first letter and an upper-case letter after every hyphen, and lower case elsewhere; a
  key with any other byte is returned as it is.
\<close>

definition validHeaderFieldByte :: "char \<Rightarrow> bool" where
  "validHeaderFieldByte c =
     (let n = (of_char c :: nat) in
      (48 \<le> n \<and> n \<le> 57) \<or> (65 \<le> n \<and> n \<le> 90) \<or> (97 \<le> n \<and> n \<le> 122) \<or>
      c \<in> set (''!#$%&*+-.^_|~'' @ [CHR 0x27, CHR 0x60]))"

definition toLower :: nat where
  "toLower = 32"

fun canonicalMIMEHeaderKey :: "bool \<Rightarrow> string \<Rightarrow> string" where
  "canonicalMIMEHeaderKey upper [] = []"
| "canonicalMIMEHeaderKey upper (c # cs) =
     (let n = (of_char c :: nat);
          c' = (if upper \<and> 97 \<le> n \<and> n \<le> 122 then char_of (n - toLower)
                else if \<not> upper \<and> 65 \<le> n \<and> n \<le> 90 then char_of (n + toLower)
                else c)
      in c' # canonicalMIMEHeaderKey (c' = CHR ''-'') cs)"

definition CanonicalMIMEHeaderKey :: "string \<Rightarrow> string" where
  "CanonicalMIMEHeaderKey s =
     (if list_all validHeaderFieldByte s then canonicalMIMEHeaderKey True s else s)"

text \<open>\<^verbatim>\<open>http.Header\<close> is a map from canonical keys to lists of values.\<close>

type_synonym Header = "string \<rightharpoonup> string list"

definition Header_Set :: "Header \<Rightarrow> string \<Rightarrow> string \<Rightarrow> Header" where
  "Header_Set h key v = h(CanonicalMIMEHeaderKey key \<mapsto> [v])"

definition Header_Del :: "Header \<Rightarrow> string \<Rightarrow> Header" where
  "Header_Del h key = h(CanonicalMIMEHeaderKey key := None)"

text \<open>\<^verbatim>\<open>url.Values\<close> and its \<^verbatim>\<open>Get\<close>: the first value of the key, or the empty string.\<close>

type_synonym Values = "string \<rightharpoonup> string list"

definition Values_Get :: "Values \<Rightarrow> string \<Rightarrow> string" where
  "Values_Get v key = (case v key of None \<Rightarrow> [] | Some [] \<Rightarrow> [] | Some (x # _) \<Rightarrow> x)"

definition StatusOK :: int where "StatusOK = 200"
definition StatusBadRequest :: int where "StatusBadRequest = 400"
definition StatusBadGateway :: int where "StatusBadGateway = 502"
definition StatusServiceUnavailable :: int where "StatusServiceUnavailable = 503"
definition StatusGatewayTimeout :: int where "StatusGatewayTimeout = 504"

section \<open>The response\<close>

text \<open>
  The struct \<^verbatim>\<open>result\<close>. Its fields \<^verbatim>\<open>Error\<close> and \<^verbatim>\<open>Proxy\<close> are tagged
  \<^verbatim>\<open>omitempty\<close>: the JSON object has the key exactly when the string is not empty.
\<close>

record result =
  Status :: string
  Error :: string
  Proxy :: string

definition json_keys :: "result \<Rightarrow> string list" where
  "json_keys v =
     [''status''] @ (if Error v = [] then [] else [''error''])
                 @ (if Proxy v = [] then [] else [''proxy''])"

text \<open>
  A call returns, or panics; either way it leaves a state behind, which the outcome
  carries.
\<close>

datatype 'a outcome = Panic 'a | Return 'a

text \<open>
  What a handler does to its \<^verbatim>\<open>http.ResponseWriter\<close>: the header map it fills, the code it
  passes to \<^verbatim>\<open>WriteHeader\<close> and the values it encodes into the body. The record is what
  \<^verbatim>\<open>httptest.ResponseRecorder\<close> keeps, and \<^verbatim>\<open>WriteHeader\<close> is the recorder's: a call after
  the first does nothing, and the first call panics in \<^verbatim>\<open>checkWriteHeaderCode\<close> on a code
  below 100 or above 999, as the server's own writer does.
\<close>

record ResponseWriter =
  HeaderMap :: Header
  Code :: "int option"
  Body :: "result list"

definition NewRecorder :: ResponseWriter where
  "NewRecorder = \<lparr>HeaderMap = Map.empty, Code = None, Body = []\<rparr>"

definition checkWriteHeaderCode :: "int \<Rightarrow> unit outcome" where
  "checkWriteHeaderCode c = (if c < 100 \<or> 999 < c then Panic () else Return ())"

definition WriteHeader :: "ResponseWriter \<Rightarrow> int \<Rightarrow> ResponseWriter outcome" where
  "WriteHeader w c =
     (if Code w \<noteq> None then Return w
      else
        (case checkWriteHeaderCode c of
           Panic _ \<Rightarrow> Panic w
         | Return _ \<Rightarrow> Return (w\<lparr>Code := Some c\<rparr>)))"

definition Encode :: "ResponseWriter \<Rightarrow> result \<Rightarrow> ResponseWriter" where
  "Encode w v = w\<lparr>Body := Body w @ [v]\<rparr>"

text \<open>\<^verbatim>\<open>writeJSON\<close>: set the content type, write the header, encode the value. A panic in
  \<^verbatim>\<open>WriteHeader\<close> leaves the body untouched.\<close>

definition writeJSON :: "ResponseWriter \<Rightarrow> int \<Rightarrow> result \<Rightarrow> ResponseWriter outcome" where
  "writeJSON w c v =
     (case WriteHeader
             (w\<lparr>HeaderMap :=
                  Header_Set (HeaderMap w) ''content-type'' ''application/json;charset=utf-8''\<rparr>)
             c of
        Panic w' \<Rightarrow> Panic w'
      | Return w' \<Rightarrow> Return (Encode w' v))"

section \<open>The network\<close>

text \<open>
  A value of Go's \<^verbatim>\<open>error\<close> interface, as far as the handlers look at it: its text
  (\<^verbatim>\<open>Error()\<close>) and, when its dynamic type implements \<^verbatim>\<open>net.Error\<close>, what \<^verbatim>\<open>Timeout()\<close>
  reports.
\<close>

datatype goerror = PlainError string | NetError string bool

fun error_Error :: "goerror \<Rightarrow> string" where
  "error_Error (PlainError msg) = msg"
| "error_Error (NetError msg t) = msg"

text \<open>What \<^verbatim>\<open>http.ReadResponse\<close> returns on success: the status code and the header map,
  the latter as the list of its entries in the order the \<^verbatim>\<open>range\<close> loop visits them.\<close>

record Response =
  StatusCode :: int
  Header :: "(string \<times> string list) list"

text \<open>
  The network is a parameter of the model: whether a dial to an address succeeds and how
  long it takes, and what reading a response yields on a connection to an address after
  the given bytes were written to it. Times and durations are integers (nanoseconds).
\<close>

record network =
  connect :: "int \<Rightarrow> string \<Rightarrow> goerror option"
  connect_time :: "int \<Rightarrow> string \<Rightarrow> int"
  reply :: "string \<Rightarrow> string \<Rightarrow> goerror + Response"

text \<open>What a handler does on the network, in order, and the clock \<^verbatim>\<open>time.Now()\<close> reads.
  A connection is named by the address it was dialed to.\<close>

datatype event =
    EvDial string
  | EvSetDeadline string int
  | EvWrite string string
  | EvReadResponse string
  | EvClose string

record world =
  clock :: int
  trace :: "event list"

definition Dialer_Dial ::
    "network \<Rightarrow> int \<Rightarrow> string \<Rightarrow> world \<Rightarrow> goerror option \<times> world" where
  "Dialer_Dial n timeout address s =
     (connect n timeout address,
      s\<lparr>clock := clock s + connect_time n timeout address,
        trace := trace s @ [EvDial address]\<rparr>)"

definition Conn_SetDeadline :: "string \<Rightarrow> int \<Rightarrow> world \<Rightarrow> world" where
  "Conn_SetDeadline c t s = s\<lparr>trace := trace s @ [EvSetDeadline c t]\<rparr>"

definition Conn_Write :: "string \<Rightarrow> string \<Rightarrow> world \<Rightarrow> world" where
  "Conn_Write c bytes s = s\<lparr>trace := trace s @ [EvWrite c bytes]\<rparr>"

definition http_ReadResponse ::
    "network \<Rightarrow> string \<Rightarrow> string \<Rightarrow> world \<Rightarrow> (goerror + Response) \<times> world" where
  "http_ReadResponse n c written s =
     (reply n c written, s\<lparr>trace := trace s @ [EvReadResponse c]\<rparr>)"

definition Conn_Close :: "string \<Rightarrow> world \<Rightarrow> world" where
  "Conn_Close c s = s\<lparr>trace := trace s @ [EvClose c]\<rparr>"

section \<open>The handlers\<close>

text \<open>An HTTP request, as far as the handlers read it: \<^verbatim>\<open>r.URL.Path\<close> and the parsed
  query \<^verbatim>\<open>r.URL.Query()\<close>.\<close>

record Request =
  URL_Path :: string
  URL_Query :: Values

text \<open>
  A handler stops right after \<^verbatim>\<open>writeJSON\<close>: it returns when \<^verbatim>\<open>writeJSON\<close> returns and
  panics when \<^verbatim>\<open>writeJSON\<close> panics, in the world its deferred calls leave. A handler also
  panics on an empty path, where \<^verbatim>\<open>r.URL.Path[1:]\<close> is out of range.
\<close>

definition stop :: "ResponseWriter outcome \<Rightarrow> world \<Rightarrow> (ResponseWriter \<times> world) outcome" where
  "stop x s = (case x of Panic w \<Rightarrow> Panic (w, s) | Return w \<Rightarrow> Return (w, s))"

text \<open>\<^verbatim>\<open>plainTest.Check\<close>: dial the target and close the connection at once.\<close>

definition plainTest_Check ::
    "network \<Rightarrow> int \<Rightarrow> string \<Rightarrow> string \<Rightarrow> world \<Rightarrow> goerror option \<times> world" where
  "plainTest_Check n timeout host port s =
     (case Dialer_Dial n timeout (JoinHostPort host port) s of
        (Some err, s1) \<Rightarrow> (Some err, s1)
      | (None, s1) \<Rightarrow> (None, Conn_Close (JoinHostPort host port) s1))"

text \<open>The handler \<^verbatim>\<open>plain\<close> of \<^verbatim>\<open>Run\<close>: the direct probe.\<close>

definition plain ::
    "int \<Rightarrow> network \<Rightarrow> Request \<Rightarrow> ResponseWriter \<times> world \<Rightarrow> (ResponseWriter \<times> world) outcome" where
  "plain timeout n r ws =
     (case ws of (w, s) \<Rightarrow>
      if URL_Path r = [] then Panic (w, s)
      else
        (case SplitHostPort (drop 1 (URL_Path r)) of
           Inl err \<Rightarrow>
             stop (writeJSON w StatusBadRequest
               \<lparr>Status = ''INVALID_HOST'', Error = AddrError_Error err, Proxy = []\<rparr>) s
         | Inr (host, port) \<Rightarrow>
             (case plainTest_Check n timeout host port s of
                (Some err, s1) \<Rightarrow>
                  stop (writeJSON w StatusBadGateway
                    \<lparr>Status = ''HOST_CONNECT_FAIL'', Error = error_Error err, Proxy = []\<rparr>) s1
              | (None, s1) \<Rightarrow>
                  stop (writeJSON w StatusOK \<lparr>Status = ''OK'', Error = [], Proxy = []\<rparr>) s1)))"

text \<open>
  The branch of \<^verbatim>\<open>proxyHandler.ServeHTTP\<close> taken when \<^verbatim>\<open>http.ReadResponse\<close> fails: the
  status code and the result written, from the error and the result prepared so far.
\<close>

definition read_failed :: "goerror \<Rightarrow> result \<Rightarrow> int \<times> result" where
  "read_failed err reslt =
     (let status = StatusGatewayTimeout;
          reslt = reslt\<lparr>Status := ''PROXY_CONNECT_ERROR''\<rparr>;
          reslt = reslt\<lparr>Error := error_Error err\<rparr>
      in case err of
           NetError msg t \<Rightarrow>
             (let status = StatusServiceUnavailable;
                  reslt = reslt\<lparr>Status := ''HOST_CONNECT_FAIL''\<rparr>;
                  (status, reslt) =
                    (if t then (StatusGatewayTimeout, reslt\<lparr>Status := ''PROXY_CONNECT_ERROR''\<rparr>)
                     else (status, reslt))
              in (status, reslt\<lparr>Error := ''net error: '' @ error_Error err\<rparr>))
         | PlainError msg \<Rightarrow> (status, reslt))"

text \<open>The bytes \<^verbatim>\<open>fmt.Fprintf(c, "CONNECT %s:%s HTTP/1.1\\n\\n", host, port)\<close> writes.\<close>

definition CONNECT_request :: "string \<Rightarrow> string \<Rightarrow> string" where
  "CONNECT_request host port =
     ''CONNECT '' @ host @ '':'' @ port @ '' HTTP/1.1'' @ [CHR 0x0A, CHR 0x0A]"

text \<open>The two loops that copy the proxy's headers: \<^verbatim>\<open>Set\<close> for every value of a key, then
  \<^verbatim>\<open>Del("content-length")\<close> after every key.\<close>

fun copy_values :: "Header \<Rightarrow> string \<Rightarrow> string list \<Rightarrow> Header" where
  "copy_values h k [] = h"
| "copy_values h k (v # vals) = copy_values (Header_Set h k v) k vals"

fun copy_headers :: "Header \<Rightarrow> (string \<times> string list) list \<Rightarrow> Header" where
  "copy_headers h [] = h"
| "copy_headers h ((k, vals) # rest) =
     copy_headers (Header_Del (copy_values h k vals) ''content-length'') rest"

text \<open>
  \<^verbatim>\<open>proxyHandler.ServeHTTP\<close>, with the handler's \<^verbatim>\<open>Timeout\<close> as first argument. The deferred
  \<^verbatim>\<open>c.Close()\<close> runs when the handler stops after \<^verbatim>\<open>writeJSON\<close>, whether that returned or
  panicked. Logging and the goroutine that drains the proxy's response body are left out.
\<close>

definition proxyHandler_ServeHTTP ::
    "int \<Rightarrow> network \<Rightarrow> Request \<Rightarrow> ResponseWriter \<times> world \<Rightarrow> (ResponseWriter \<times> world) outcome" where
  "proxyHandler_ServeHTTP Timeout n r ws =
     (case ws of (w, s) \<Rightarrow>
      let proxy = Values_Get (URL_Query r) ''proxy'' in
      if URL_Path r = [] then Panic (w, s)
      else
        (case SplitHostPort (drop 1 (URL_Path r)) of
           Inl err \<Rightarrow>
             stop (writeJSON w StatusBadRequest
               \<lparr>Status = ''BAD_URL'', Error = AddrError_Error err, Proxy = proxy\<rparr>) s
         | Inr (host, port) \<Rightarrow>
             (case Dialer_Dial n Timeout proxy s of
                (Some err, s1) \<Rightarrow>
                  stop (writeJSON w StatusBadRequest
                    \<lparr>Status = ''PROXY_UNREACHABLE'', Error = error_Error err, Proxy = proxy\<rparr>) s1
              | (None, s1) \<Rightarrow>
                  (let s2 = (if 0 < Timeout then Conn_SetDeadline proxy (clock s1 + Timeout) s1
                             else s1);
                       req = CONNECT_request host port;
                       s3 = Conn_Write proxy req s2;
                       (res, s4) = http_ReadResponse n proxy req s3;
                       reslt = \<lparr>Status = ''OK'', Error = [], Proxy = proxy\<rparr>
                   in case res of
                        Inl err \<Rightarrow>
                          (case read_failed err reslt of
                             (status, reslt) \<Rightarrow>
                               stop (writeJSON w status reslt) (Conn_Close proxy s4))
                      | Inr res \<Rightarrow>
                          stop
                            (writeJSON
                               (w\<lparr>HeaderMap := copy_headers (HeaderMap w) (Header res)\<rparr>)
                               (StatusCode res) reslt)
                            (Conn_Close proxy s4)))))"

text \<open>The handler \<^verbatim>\<open>Run\<close> returns: the proxy probe when the query's \<^verbatim>\<open>proxy\<close> is not the
  empty string, the direct probe otherwise. The deferred log line is left out.\<close>

definition Run ::
    "int \<Rightarrow> network \<Rightarrow> Request \<Rightarrow> ResponseWriter \<times> world \<Rightarrow> (ResponseWriter \<times> world) outcome" where
  "Run timeout n r ws =
     (if Values_Get (URL_Query r) ''proxy'' \<noteq> [] then proxyHandler_ServeHTTP timeout n r ws
      else plain timeout n r ws)"

section \<open>Inputs for the examples\<close>

text \<open>
  A network that answers every dial and every read alike, a request as
  \<^verbatim>\<open>httptest.NewRequest\<close> followed by setting the \<^verbatim>\<open>proxy\<close> query value builds it in the
  repository's test, and the world before the handler runs.
\<close>

definition test_network :: "goerror option \<Rightarrow> int \<Rightarrow> goerror + Response \<Rightarrow> network" where
  "test_network d t rp = \<lparr>connect = (\<lambda>_ _. d), connect_time = (\<lambda>_ _. t), reply = (\<lambda>_ _. rp)\<rparr>"

definition test_request :: "string \<Rightarrow> string \<Rightarrow> Request" where
  "test_request path proxy = \<lparr>URL_Path = path, URL_Query = [''proxy'' \<mapsto> [proxy]]\<rparr>"

definition test_request_direct :: "string \<Rightarrow> Request" where
  "test_request_direct path = \<lparr>URL_Path = path, URL_Query = Map.empty\<rparr>"

definition start :: world where
  "start = \<lparr>clock = 0, trace = []\<rparr>"

text \<open>The network events of a tunnel attempt whose dial succeeded at time \<open>connected\<close>.\<close>

definition tunnel_events :: "int \<Rightarrow> int \<Rightarrow> string \<Rightarrow> string \<Rightarrow> string \<Rightarrow> event list" where
  "tunnel_events T connected proxy host port =
     [EvDial proxy] @ (if 0 < T then [EvSetDeadline proxy (connected + T)] else []) @
     [EvWrite proxy (CONNECT_request host port), EvReadResponse proxy, EvClose proxy]"

text \<open>The writer \<^verbatim>\<open>writeJSON\<close> leaves behind when it returns.\<close>

definition written :: "ResponseWriter \<Rightarrow> int \<Rightarrow> result \<Rightarrow> ResponseWriter" where
  "written w c v =
     Encode
       (w\<lparr>HeaderMap :=
            Header_Set (HeaderMap w) ''content-type'' ''application/json;charset=utf-8'',
          Code := (if Code w = None then Some c else Code w)\<rparr>)
       v"

text \<open>The deadlines set on connections, in the order they were set.\<close>

definition deadlines :: "event list \<Rightarrow> int list" where
  "deadlines evs = concat (map (\<lambda>e. case e of EvSetDeadline c t \<Rightarrow> [t] | _ \<Rightarrow> []) evs)"

text \<open>The byte one round of the loop in \<^verbatim>\<open>canonicalMIMEHeaderKey\<close> stores.\<close>

definition canon_byte :: "bool \<Rightarrow> char \<Rightarrow> char" where
  "canon_byte upper c = (let n = (of_char c :: nat) in
     if upper \<and> 97 \<le> n \<and> n \<le> 122 then char_of (n - toLower)
     else if \<not> upper \<and> 65 \<le> n \<and> n \<le> 90 then char_of (n + toLower) else c)"

section \<open>The branches of the proxy handler\<close>

lemma writeJSON_eq:
  "writeJSON w c v =
     (if Code w = None \<and> (c < 100 \<or> 999 < c) then
        Panic (w\<lparr>HeaderMap :=
                   Header_Set (HeaderMap w) ''content-type'' ''application/json;charset=utf-8''\<rparr>)
      else Return (written w c v))"
  by (cases "Code w")
     (simp_all add: writeJSON_def WriteHeader_def checkWriteHeaderCode_def written_def Encode_def)

lemma writeJSON_Return: "100 \<le> c \<Longrightarrow> c \<le> 999 \<Longrightarrow> writeJSON w c v = Return (written w c v)"
  by (simp add: writeJSON_eq)

lemma written_Code: "Code w = None \<Longrightarrow> Code (written w c v) = Some c"
  by (simp add: written_def Encode_def)

lemma written_Body: "Body (written w c v) = Body w @ [v]"
  by (simp add: written_def Encode_def)

lemma written_HeaderMap:
  "HeaderMap (written w c v) =
     Header_Set (HeaderMap w) ''content-type'' ''application/json;charset=utf-8''"
  by (simp add: written_def Encode_def)

lemma proxy_parse_failed:
  assumes "URL_Path r \<noteq> []" and "SplitHostPort (drop 1 (URL_Path r)) = Inl err"
    and "Values_Get (URL_Query r) ''proxy'' = proxy"
  shows "proxyHandler_ServeHTTP T n r (w, s) =
           Return (written w StatusBadRequest
             \<lparr>Status = ''BAD_URL'', Error = AddrError_Error err, Proxy = proxy\<rparr>, s)"
  using assms
  by (simp add: proxyHandler_ServeHTTP_def Let_def stop_def writeJSON_Return StatusBadRequest_def)

lemma proxy_dial_failed:
  assumes "URL_Path r \<noteq> []" and "SplitHostPort (drop 1 (URL_Path r)) = Inr (host, port)"
    and "Values_Get (URL_Query r) ''proxy'' = proxy"
    and "connect n T proxy = Some err"
  shows "proxyHandler_ServeHTTP T n r (w, s) =
           Return (written w StatusBadRequest
             \<lparr>Status = ''PROXY_UNREACHABLE'', Error = error_Error err, Proxy = proxy\<rparr>,
             s\<lparr>clock := clock s + connect_time n T proxy,
               trace := trace s @ [EvDial proxy]\<rparr>)"
  using assms
  by (simp add: proxyHandler_ServeHTTP_def Dialer_Dial_def Let_def stop_def writeJSON_Return
      StatusBadRequest_def)

lemma read_failed_PlainError:
  "read_failed (PlainError msg) v = (504, v\<lparr>Status := ''PROXY_CONNECT_ERROR'', Error := msg\<rparr>)"
  by (simp add: read_failed_def StatusGatewayTimeout_def)

lemma read_failed_NetError_no_timeout:
  "read_failed (NetError msg False) v =
     (503, v\<lparr>Status := ''HOST_CONNECT_FAIL'', Error := ''net error: '' @ msg\<rparr>)"
  by (simp add: read_failed_def StatusServiceUnavailable_def)

lemma read_failed_NetError_timeout:
  "read_failed (NetError msg True) v =
     (504, v\<lparr>Status := ''PROXY_CONNECT_ERROR'', Error := ''net error: '' @ msg\<rparr>)"
  by (simp add: read_failed_def StatusGatewayTimeout_def)

lemma read_failed_code: "read_failed err v = (c, v') \<Longrightarrow> c = 503 \<or> c = 504"
proof (cases err)
  case (PlainError msg)
  then show "read_failed err v = (c, v') \<Longrightarrow> c = 503 \<or> c = 504"
    by (simp add: read_failed_PlainError)
next
  case (NetError msg t)
  then show "read_failed err v = (c, v') \<Longrightarrow> c = 503 \<or> c = 504"
    by (cases t) (simp_all add: read_failed_NetError_timeout read_failed_NetError_no_timeout)
qed

lemma proxy_read_failed:
  assumes "URL_Path r \<noteq> []" and "SplitHostPort (drop 1 (URL_Path r)) = Inr (host, port)"
    and "Values_Get (URL_Query r) ''proxy'' = proxy"
    and "connect n T proxy = None"
    and "reply n proxy (CONNECT_request host port) = Inl err"
    and "read_failed err \<lparr>Status = ''OK'', Error = [], Proxy = proxy\<rparr> = (c, v)"
  shows "\<exists>s'. proxyHandler_ServeHTTP T n r (w, s) = Return (written w c v, s')
           \<and> trace s' = trace s @ tunnel_events T (clock s + connect_time n T proxy) proxy host port"
proof -
  have "writeJSON w c v = Return (written w c v)"
    using read_failed_code [OF assms(6)] by (auto simp: writeJSON_Return)
  then show ?thesis
    using assms
    by (simp add: proxyHandler_ServeHTTP_def Dialer_Dial_def Conn_SetDeadline_def Conn_Write_def
        http_ReadResponse_def Conn_Close_def tunnel_events_def Let_def stop_def)
qed

lemma proxy_read_ok:
  assumes "URL_Path r \<noteq> []" and "SplitHostPort (drop 1 (URL_Path r)) = Inr (host, port)"
    and "Values_Get (URL_Query r) ''proxy'' = proxy"
    and "connect n T proxy = None"
    and "reply n proxy (CONNECT_request host port) = Inr res"
  shows "\<exists>s'. proxyHandler_ServeHTTP T n r (w, s) =
           stop (writeJSON (w\<lparr>HeaderMap := copy_headers (HeaderMap w) (Header res)\<rparr>)
                   (StatusCode res) \<lparr>Status = ''OK'', Error = [], Proxy = proxy\<rparr>) s'
           \<and> trace s' = trace s @ tunnel_events T (clock s + connect_time n T proxy) proxy host port"
proof -
  let ?s = "s\<lparr>clock := clock s + connect_time n T proxy,
             trace := trace s @ tunnel_events T (clock s + connect_time n T proxy) proxy host port\<rparr>"
  have "proxyHandler_ServeHTTP T n r (w, s) =
           stop (writeJSON (w\<lparr>HeaderMap := copy_headers (HeaderMap w) (Header res)\<rparr>)
                   (StatusCode res) \<lparr>Status = ''OK'', Error = [], Proxy = proxy\<rparr>) ?s"
    using assms
    by (simp add: proxyHandler_ServeHTTP_def Dialer_Dial_def Conn_SetDeadline_def Conn_Write_def
        http_ReadResponse_def Conn_Close_def tunnel_events_def Let_def)
  moreover have "trace ?s =
      trace s @ tunnel_events T (clock s + connect_time n T proxy) proxy host port"
    by simp
  ultimately show ?thesis by blast
qed

lemma proxy_read_ok_Return:
  assumes "URL_Path r \<noteq> []" and "SplitHostPort (drop 1 (URL_Path r)) = Inr (host, port)"
    and "Values_Get (URL_Query r) ''proxy'' = proxy"
    and "connect n T proxy = None"
    and "reply n proxy (CONNECT_request host port) = Inr res"
    and "100 \<le> StatusCode res" and "StatusCode res \<le> 999"
  shows "\<exists>s'. proxyHandler_ServeHTTP T n r (w, s) =
           Return (written (w\<lparr>HeaderMap := copy_headers (HeaderMap w) (Header res)\<rparr>)
                     (StatusCode res) \<lparr>Status = ''OK'', Error = [], Proxy = proxy\<rparr>, s')
           \<and> trace s' = trace s @ tunnel_events T (clock s + connect_time n T proxy) proxy host port"
  using proxy_read_ok [OF assms(1-5), of w s] assms(6,7)
  by (simp add: writeJSON_Return stop_def)

lemma proxy_read_ok_Panic:
  assumes "URL_Path r \<noteq> []" and "SplitHostPort (drop 1 (URL_Path r)) = Inr (host, port)"
    and "Values_Get (URL_Query r) ''proxy'' = proxy"
    and "connect n T proxy = None"
    and "reply n proxy (CONNECT_request host port) = Inr res"
    and "StatusCode res < 100 \<or> 999 < StatusCode res" and "Code w = None"
  shows "\<exists>w' s'. proxyHandler_ServeHTTP T n r (w, s) = Panic (w', s')
           \<and> Code w' = None \<and> Body w' = Body w
           \<and> trace s' = trace s @ tunnel_events T (clock s + connect_time n T proxy) proxy host port"
  using proxy_read_ok [OF assms(1-5), of w s] assms(6,7)
  by (auto simp: writeJSON_eq stop_def)

lemma SplitHostPort_example: "SplitHostPort ''h:80'' = Inr (''h'', ''80'')"
  by (simp add: SplitHostPort_def SplitHostPort_tail_def slice_def)

lemma SplitHostPort_xyz:
  "SplitHostPort ''xyz'' = Inl \<lparr>Err = ''missing port in address'', Addr = ''xyz''\<rparr>"
  by (simp add: SplitHostPort_def addrErr_def missingPort_def)

lemma test_request_simps:
  "URL_Path (test_request path proxy) = path"
  "Values_Get (URL_Query (test_request path proxy)) ''proxy'' = proxy"
  by (simp_all add: test_request_def Values_Get_def)

lemma test_network_simps:
  "connect (test_network d t rp) T a = d"
  "connect_time (test_network d t rp) T a = t"
  "reply (test_network d t rp) a b = rp"
  by (simp_all add: test_network_def)

lemma NewRecorder_simps:
  "Code NewRecorder = None" "Body NewRecorder = []" "HeaderMap NewRecorder = Map.empty"
  by (simp_all add: NewRecorder_def)

lemma proxy_dialed_trace:
  assumes "URL_Path r \<noteq> []" and "SplitHostPort (drop 1 (URL_Path r)) = Inr (host, port)"
    and "Values_Get (URL_Query r) ''proxy'' = proxy"
    and "connect n T proxy = None"
  shows "\<exists>w' s'.
           (proxyHandler_ServeHTTP T n r (w, s) = Return (w', s') \<or>
            proxyHandler_ServeHTTP T n r (w, s) = Panic (w', s') \<and>
              (\<exists>res. reply n proxy (CONNECT_request host port) = Inr res \<and>
                     (StatusCode res < 100 \<or> 999 < StatusCode res))) \<and>
           trace s' = trace s @ tunnel_events T (clock s + connect_time n T proxy) proxy host port"
proof (cases "reply n proxy (CONNECT_request host port)")
  case (Inl err)
  obtain c v where "read_failed err \<lparr>Status = ''OK'', Error = [], Proxy = proxy\<rparr> = (c, v)"
    by (cases "read_failed err \<lparr>Status = ''OK'', Error = [], Proxy = proxy\<rparr>")
  from proxy_read_failed [OF assms Inl this, of w s] show ?thesis by blast
next
  case (Inr res)
  from proxy_read_ok [OF assms Inr, of w s] obtain s' where
    h: "proxyHandler_ServeHTTP T n r (w, s) =
           stop (writeJSON (w\<lparr>HeaderMap := copy_headers (HeaderMap w) (Header res)\<rparr>)
                   (StatusCode res) \<lparr>Status = ''OK'', Error = [], Proxy = proxy\<rparr>) s'"
    and t: "trace s' = trace s @ tunnel_events T (clock s + connect_time n T proxy) proxy host port"
    by blast
  show ?thesis
  proof (cases "Code w = None \<and> (StatusCode res < 100 \<or> 999 < StatusCode res)")
    case True
    then show ?thesis using h t Inr by (auto simp: writeJSON_eq stop_def)
  next
    case False
    then have "proxyHandler_ServeHTTP T n r (w, s) =
        Return (written (w\<lparr>HeaderMap := copy_headers (HeaderMap w) (Header res)\<rparr>)
                   (StatusCode res) \<lparr>Status = ''OK'', Error = [], Proxy = proxy\<rparr>, s')"
      using h by (simp add: writeJSON_eq stop_def)
    then show ?thesis using t by blast
  qed
qed

section \<open>Header keys\<close>

lemma canon_content_length: "CanonicalMIMEHeaderKey ''content-length'' = ''Content-Length''"
  by code_simp

lemma canon_content_type: "CanonicalMIMEHeaderKey ''content-type'' = ''Content-Type''"
  by code_simp

lemma canonical_Cons:
  "canonicalMIMEHeaderKey u (c # cs) = canon_byte u c # canonicalMIMEHeaderKey (canon_byte u c = CHR ''-'') cs"
  by (simp add: canon_byte_def Let_def)

lemma canon_byte_idem: "canon_byte u (canon_byte u c) = canon_byte u c"
  by (auto simp add: canon_byte_def Let_def toLower_def)

lemma valid_upper:
  "65 \<le> (of_char c :: nat) \<Longrightarrow> (of_char c :: nat) \<le> 90 \<Longrightarrow> validHeaderFieldByte c"
  by (simp add: validHeaderFieldByte_def)

lemma valid_lower:
  "97 \<le> (of_char c :: nat) \<Longrightarrow> (of_char c :: nat) \<le> 122 \<Longrightarrow> validHeaderFieldByte c"
  by (simp add: validHeaderFieldByte_def)

lemma canon_byte_valid:
  assumes "validHeaderFieldByte c"
  shows "validHeaderFieldByte (canon_byte u c)"
proof -
  let ?n = "of_char c :: nat"
  consider (up) "u \<and> 97 \<le> ?n \<and> ?n \<le> 122"
    | (low) "\<not> (u \<and> 97 \<le> ?n \<and> ?n \<le> 122)" "\<not> u \<and> 65 \<le> ?n \<and> ?n \<le> 90"
    | (same) "\<not> (u \<and> 97 \<le> ?n \<and> ?n \<le> 122)" "\<not> (\<not> u \<and> 65 \<le> ?n \<and> ?n \<le> 90)"
    by blast
  then show ?thesis
  proof cases
    case up
    then have "canon_byte u c = char_of (?n - 32)"
      by (simp add: canon_byte_def toLower_def)
    moreover have "65 \<le> (of_char (char_of (?n - 32) :: char) :: nat)"
      "(of_char (char_of (?n - 32) :: char) :: nat) \<le> 90"
      using up by auto
    ultimately show ?thesis by (simp only: valid_upper)
  next
    case low
    then have "canon_byte u c = char_of (?n + 32)"
      by (simp add: canon_byte_def toLower_def)
    moreover have "97 \<le> (of_char (char_of (?n + 32) :: char) :: nat)"
      "(of_char (char_of (?n + 32) :: char) :: nat) \<le> 122"
      using low by auto
    ultimately show ?thesis by (simp only: valid_lower)
  next
    case same
    then have "canon_byte u c = c"
      by (auto simp add: canon_byte_def Let_def)
    then show ?thesis using assms by simp
  qed
qed

lemma canonical_idem:
  "canonicalMIMEHeaderKey u (canonicalMIMEHeaderKey u s) = canonicalMIMEHeaderKey u s"
proof (induction s arbitrary: u)
  case Nil
  show ?case by simp
next
  case (Cons c cs)
  show ?case
    unfolding canonical_Cons canon_byte_idem using Cons.IH by simp
qed

lemma canonical_valid:
  "list_all validHeaderFieldByte s \<Longrightarrow> list_all validHeaderFieldByte (canonicalMIMEHeaderKey u s)"
proof (induction s arbitrary: u)
  case Nil
  show ?case by simp
next
  case (Cons c cs)
  then show ?case
    unfolding canonical_Cons by (simp add: canon_byte_valid)
qed

lemma Canonical_idem: "CanonicalMIMEHeaderKey (CanonicalMIMEHeaderKey s) = CanonicalMIMEHeaderKey s"
  by (simp add: CanonicalMIMEHeaderKey_def canonical_idem canonical_valid)

section \<open>Classification of a failed read (C1)\<close>

text \<open>
  Claim C1. When the proxy was dialed and reading its response fails, the handler returns
  and the response is classified by the shape of the error: an error that is not a
  \<^verbatim>\<open>net.Error\<close> gives status code 504 and \<^verbatim>\<open>PROXY_CONNECT_ERROR\<close>; a \<^verbatim>\<open>net.Error\<close> that
  reports no timeout gives 503 and \<^verbatim>\<open>HOST_CONNECT_FAIL\<close>; a \<^verbatim>\<open>net.Error\<close> that reports a
  timeout gives 504 and \<^verbatim>\<open>PROXY_CONNECT_ERROR\<close>. The result carries the error text (with the
  prefix \<^verbatim>\<open>net error: \<close> for a \<^verbatim>\<open>net.Error\<close>) and the proxy address.
\<close>

theorem C1_read_failure_classified:
  assumes "URL_Path r \<noteq> []" and "SplitHostPort (drop 1 (URL_Path r)) = Inr (host, port)"
    and "Values_Get (URL_Query r) ''proxy'' = proxy"
    and "connect n T proxy = None"
    and "reply n proxy (CONNECT_request host port) = Inl err"
    and "Code w = None"
  shows "\<exists>w' s'. proxyHandler_ServeHTTP T n r (w, s) = Return (w', s') \<and>
           (case err of
              PlainError msg \<Rightarrow>
                Code w' = Some 504 \<and>
                Body w' = Body w @ [\<lparr>Status = ''PROXY_CONNECT_ERROR'', Error = msg, Proxy = proxy\<rparr>]
            | NetError msg timeout \<Rightarrow>
                if timeout then
                  Code w' = Some 504 \<and>
                  Body w' = Body w @ [\<lparr>Status = ''PROXY_CONNECT_ERROR'',
                                       Error = ''net error: '' @ msg, Proxy = proxy\<rparr>]
                else
                  Code w' = Some 503 \<and>
                  Body w' = Body w @ [\<lparr>Status = ''HOST_CONNECT_FAIL'',
                                       Error = ''net error: '' @ msg, Proxy = proxy\<rparr>])"
proof (cases err)
  case (PlainError msg)
  from proxy_read_failed [OF assms(1-5), of _ _ w s] read_failed_PlainError [of msg]
  show ?thesis using PlainError assms(6) by (auto simp: written_Code written_Body)
next
  case (NetError msg timeout)
  show ?thesis
  proof (cases timeout)
    case True
    from proxy_read_failed [OF assms(1-5), of _ _ w s] read_failed_NetError_timeout [of msg]
    show ?thesis using NetError True assms(6) by (auto simp: written_Code written_Body)
  next
    case False
    from proxy_read_failed [OF assms(1-5), of _ _ w s] read_failed_NetError_no_timeout [of msg]
    show ?thesis using NetError False assms(6) by (auto simp: written_Code written_Body)
  qed
qed

theorem C1_read_failure_classified_witness:
  "(\<exists>w' s'. proxyHandler_ServeHTTP 5 (test_network None 3 (Inl (PlainError ''unexpected EOF'')))
              (test_request ''/h:80'' ''p:1'') (NewRecorder, start) = Return (w', s') \<and>
            Code w' = Some 504 \<and>
            Body w' = [\<lparr>Status = ''PROXY_CONNECT_ERROR'', Error = ''unexpected EOF'', Proxy = ''p:1''\<rparr>]) \<and>
   (\<exists>w' s'. proxyHandler_ServeHTTP 5 (test_network None 3 (Inl (NetError ''reset'' False)))
              (test_request ''/h:80'' ''p:1'') (NewRecorder, start) = Return (w', s') \<and>
            Code w' = Some 503 \<and>
            Body w' = [\<lparr>Status = ''HOST_CONNECT_FAIL'', Error = ''net error: reset'', Proxy = ''p:1''\<rparr>]) \<and>
   (\<exists>w' s'. proxyHandler_ServeHTTP 5 (test_network None 3 (Inl (NetError ''i/o timeout'' True)))
              (test_request ''/h:80'' ''p:1'') (NewRecorder, start) = Return (w', s') \<and>
            Code w' = Some 504 \<and>
            Body w' = [\<lparr>Status = ''PROXY_CONNECT_ERROR'', Error = ''net error: i/o timeout'', Proxy = ''p:1''\<rparr>])"
  using C1_read_failure_classified
      [where r = "test_request ''/h:80'' ''p:1''" and host = "''h''" and port = "''80''"
         and proxy = "''p:1''" and T = 5 and w = NewRecorder and s = start
         and n = "test_network None 3 (Inl (PlainError ''unexpected EOF''))"
         and err = "PlainError ''unexpected EOF''"]
    C1_read_failure_classified
      [where r = "test_request ''/h:80'' ''p:1''" and host = "''h''" and port = "''80''"
         and proxy = "''p:1''" and T = 5 and w = NewRecorder and s = start
         and n = "test_network None 3 (Inl (NetError ''reset'' False))"
         and err = "NetError ''reset'' False"]
    C1_read_failure_classified
      [where r = "test_request ''/h:80'' ''p:1''" and host = "''h''" and port = "''80''"
         and proxy = "''p:1''" and T = 5 and w = NewRecorder and s = start
         and n = "test_network None 3 (Inl (NetError ''i/o timeout'' True))"
         and err = "NetError ''i/o timeout'' True"]
  by (simp add: test_request_simps test_network_simps NewRecorder_simps SplitHostPort_example)

section \<open>A target that does not parse, on the proxy path (C7)\<close>

text \<open>
  Claim C7. On the proxy path a target that fails parsing is answered as a client error
  before any network activity: status code 400, the status \<^verbatim>\<open>BAD_URL\<close>, the text of the
  parse error and the proxy address as supplied; the world is returned unchanged, so no
  dial was made.
\<close>

theorem C7_unparsable_target_no_dial:
  assumes "URL_Path r \<noteq> []" and "SplitHostPort (drop 1 (URL_Path r)) = Inl err"
    and "Values_Get (URL_Query r) ''proxy'' = proxy"
    and "Code w = None"
  shows "\<exists>w'. proxyHandler_ServeHTTP T n r (w, s) = Return (w', s) \<and>
           Code w' = Some 400 \<and>
           Body w' = Body w @ [\<lparr>Status = ''BAD_URL'', Error = AddrError_Error err, Proxy = proxy\<rparr>]"
  using proxy_parse_failed [OF assms(1-3), of T n w s] assms(4)
  by (simp add: written_Code written_Body StatusBadRequest_def)

theorem C7_unparsable_target_no_dial_witness:
  "\<exists>w'. proxyHandler_ServeHTTP 5 (test_network None 3 (Inl (PlainError ''unused'')))
            (test_request ''/xyz'' ''p:1'') (NewRecorder, start) = Return (w', start) \<and>
         Code w' = Some 400 \<and>
         Body w' = [\<lparr>Status = ''BAD_URL'', Error = ''address xyz: missing port in address'',
                     Proxy = ''p:1''\<rparr>]"
  using C7_unparsable_target_no_dial
      [where r = "test_request ''/xyz'' ''p:1''" and proxy = "''p:1''" and T = 5
         and err = "\<lparr>Err = ''missing port in address'', Addr = ''xyz''\<rparr>"
         and w = NewRecorder and s = start
         and n = "test_network None 3 (Inl (PlainError ''unused''))"]
  by (simp add: test_request_simps NewRecorder_simps SplitHostPort_xyz AddrError_Error_def)

section \<open>A proxy that cannot be dialed (C6)\<close>

text \<open>
  Claim C6. When the dial to the proxy fails, the handler returns status code 400 (a 4xx
  code) with \<^verbatim>\<open>PROXY_UNREACHABLE\<close>, the text of the dial error and the proxy address exactly
  as supplied; the dial is the only network event, so nothing is written or read.
\<close>

theorem C6_proxy_dial_failure:
  assumes "URL_Path r \<noteq> []" and "SplitHostPort (drop 1 (URL_Path r)) = Inr (host, port)"
    and "Values_Get (URL_Query r) ''proxy'' = proxy"
    and "connect n T proxy = Some err"
    and "Code w = None"
  shows "\<exists>w' s'. proxyHandler_ServeHTTP T n r (w, s) = Return (w', s') \<and>
           Code w' = Some 400 \<and>
           Body w' = Body w @ [\<lparr>Status = ''PROXY_UNREACHABLE'', Error = error_Error err,
                                Proxy = proxy\<rparr>] \<and>
           trace s' = trace s @ [EvDial proxy]"
  using proxy_dial_failed [OF assms(1-4), of w s] assms(5)
  by (simp add: written_Code written_Body StatusBadRequest_def)

theorem C6_proxy_dial_failure_witness:
  "\<exists>w' s'. proxyHandler_ServeHTTP 5
              (test_network (Some (NetError ''dial tcp: address abc: missing port in address'' False))
                 0 (Inl (PlainError ''unused'')))
              (test_request ''/h:80'' ''abc'') (NewRecorder, start) = Return (w', s') \<and>
           Code w' = Some 400 \<and>
           Body w' = [\<lparr>Status = ''PROXY_UNREACHABLE'',
                       Error = ''dial tcp: address abc: missing port in address'',
                       Proxy = ''abc''\<rparr>] \<and>
           trace s' = [EvDial ''abc'']"
  using C6_proxy_dial_failure
      [where r = "test_request ''/h:80'' ''abc''" and host = "''h''" and port = "''80''"
         and proxy = "''abc''" and T = 5 and w = NewRecorder and s = start
         and n = "test_network (Some (NetError ''dial tcp: address abc: missing port in address'' False))
                 0 (Inl (PlainError ''unused''))"
         and err = "NetError ''dial tcp: address abc: missing port in address'' False"]
  by (simp add: test_request_simps test_network_simps NewRecorder_simps SplitHostPort_example start_def)

section \<open>The proxy connection is closed (C8)\<close>

text \<open>
  Claim C8. Once the proxy is dialed, the connection is closed on every way out of the
  handler: after a read failure with any error, after a response was read and written,
  and also when \<^verbatim>\<open>WriteHeader\<close> panics on the proxy's status code. The close is the last
  network event, and it happens once. The handler returns on all of these paths but the
  last, which needs a response whose status code is below 100 or above 999.
\<close>

theorem C8_connection_closed:
  assumes "URL_Path r \<noteq> []" and "SplitHostPort (drop 1 (URL_Path r)) = Inr (host, port)"
    and "Values_Get (URL_Query r) ''proxy'' = proxy"
    and "connect n T proxy = None"
  shows "\<exists>w' s' evs.
           (proxyHandler_ServeHTTP T n r (w, s) = Return (w', s') \<or>
            proxyHandler_ServeHTTP T n r (w, s) = Panic (w', s') \<and>
              (\<exists>res. reply n proxy (CONNECT_request host port) = Inr res \<and>
                     (StatusCode res < 100 \<or> 999 < StatusCode res))) \<and>
           trace s' = trace s @ [EvDial proxy] @ evs @ [EvClose proxy] \<and>
           EvClose proxy \<notin> set evs"
proof -
  from proxy_dialed_trace [OF assms, of w s] obtain w' s' where
    r: "proxyHandler_ServeHTTP T n r (w, s) = Return (w', s') \<or>
        proxyHandler_ServeHTTP T n r (w, s) = Panic (w', s') \<and>
          (\<exists>res. reply n proxy (CONNECT_request host port) = Inr res \<and>
                 (StatusCode res < 100 \<or> 999 < StatusCode res))" and
    t: "trace s' = trace s @ tunnel_events T (clock s + connect_time n T proxy) proxy host port"
    by blast
  let ?evs = "(if 0 < T then [EvSetDeadline proxy (clock s + connect_time n T proxy + T)] else []) @
     [EvWrite proxy (CONNECT_request host port), EvReadResponse proxy]"
  have "trace s' = trace s @ [EvDial proxy] @ ?evs @ [EvClose proxy]"
    using t by (simp add: tunnel_events_def)
  moreover have "EvClose proxy \<notin> set ?evs" by simp
  ultimately show ?thesis using r by blast
qed

theorem C8_connection_closed_witness:
  "(\<exists>w' s' evs. proxyHandler_ServeHTTP 5 (test_network None 3 (Inl (NetError ''i/o timeout'' True)))
              (test_request ''/h:80'' ''p:1'') (NewRecorder, start) = Return (w', s') \<and>
           trace s' = [EvDial ''p:1''] @ evs @ [EvClose ''p:1''] \<and> EvClose ''p:1'' \<notin> set evs) \<and>
   (\<exists>w' s' evs. proxyHandler_ServeHTTP 5 (test_network None 3 (Inr \<lparr>StatusCode = 200, Header = []\<rparr>))
              (test_request ''/h:80'' ''p:1'') (NewRecorder, start) = Return (w', s') \<and>
           trace s' = [EvDial ''p:1''] @ evs @ [EvClose ''p:1''] \<and> EvClose ''p:1'' \<notin> set evs) \<and>
   (\<exists>w' s' evs.
        (proxyHandler_ServeHTTP 5 (test_network None 3 (Inr \<lparr>StatusCode = 0, Header = []\<rparr>))
              (test_request ''/h:80'' ''p:1'') (NewRecorder, start) = Return (w', s') \<or>
         proxyHandler_ServeHTTP 5 (test_network None 3 (Inr \<lparr>StatusCode = 0, Header = []\<rparr>))
              (test_request ''/h:80'' ''p:1'') (NewRecorder, start) = Panic (w', s')) \<and>
        trace s' = [EvDial ''p:1''] @ evs @ [EvClose ''p:1''] \<and> EvClose ''p:1'' \<notin> set evs)"
  using C8_connection_closed
      [where r = "test_request ''/h:80'' ''p:1''" and host = "''h''" and port = "''80''"
         and proxy = "''p:1''" and T = 5 and w = NewRecorder and s = start
         and n = "test_network None 3 (Inl (NetError ''i/o timeout'' True))"]
    C8_connection_closed
      [where r = "test_request ''/h:80'' ''p:1''" and host = "''h''" and port = "''80''"
         and proxy = "''p:1''" and T = 5 and w = NewRecorder and s = start
         and n = "test_network None 3 (Inr \<lparr>StatusCode = 200, Header = []\<rparr>)"]
    C8_connection_closed
      [where r = "test_request ''/h:80'' ''p:1''" and host = "''h''" and port = "''80''"
         and proxy = "''p:1''" and T = 5 and w = NewRecorder and s = start
         and n = "test_network None 3 (Inr \<lparr>StatusCode = 0, Header = []\<rparr>)"]
  by (simp add: test_request_simps test_network_simps SplitHostPort_example start_def)

section \<open>The deadline on the proxy connection (C4)\<close>

text \<open>
  Claim C4, as amended. The timeout is used twice. It is the timeout of the dial; and when
  it is positive, one deadline is set on the connection right after a successful dial, at
  the time the dial completed plus the full timeout. That deadline covers the write and
  the read together and is not set again between them. It does not account for the time
  the dial took. When the timeout is not positive, no deadline is set. This holds however
  the handler stops after the dial: it returns, unless the proxy's response has a status
  code below 100 or above 999, on which \<^verbatim>\<open>WriteHeader\<close> panics.
\<close>

theorem C4_deadline_after_dial:
  assumes "URL_Path r \<noteq> []" and "SplitHostPort (drop 1 (URL_Path r)) = Inr (host, port)"
    and "Values_Get (URL_Query r) ''proxy'' = proxy"
    and "connect n T proxy = None"
  shows "\<exists>w' s'.
           (proxyHandler_ServeHTTP T n r (w, s) = Return (w', s') \<or>
            proxyHandler_ServeHTTP T n r (w, s) = Panic (w', s') \<and>
              (\<exists>res. reply n proxy (CONNECT_request host port) = Inr res \<and>
                     (StatusCode res < 100 \<or> 999 < StatusCode res))) \<and>
           trace s' = trace s @ [EvDial proxy] @
             (if 0 < T then [EvSetDeadline proxy (clock s + connect_time n T proxy + T)] else []) @
             [EvWrite proxy (CONNECT_request host port), EvReadResponse proxy, EvClose proxy]"
  using proxy_dialed_trace [OF assms, of w s] by (simp add: tunnel_events_def)

theorem C4_deadline_after_dial_witness:
  "(\<exists>w' s'. proxyHandler_ServeHTTP 5 (test_network None 3 (Inl (NetError ''i/o timeout'' True)))
              (test_request ''/h:80'' ''p:1'') (NewRecorder, start) = Return (w', s') \<and>
           trace s' = [EvDial ''p:1'', EvSetDeadline ''p:1'' 8,
                       EvWrite ''p:1'' (CONNECT_request ''h'' ''80''), EvReadResponse ''p:1'',
                       EvClose ''p:1'']) \<and>
   (\<exists>w' s'. proxyHandler_ServeHTTP 0 (test_network None 3 (Inr \<lparr>StatusCode = 200, Header = []\<rparr>))
              (test_request ''/h:80'' ''p:1'') (NewRecorder, start) = Return (w', s') \<and>
           trace s' = [EvDial ''p:1'',
                       EvWrite ''p:1'' (CONNECT_request ''h'' ''80''), EvReadResponse ''p:1'',
                       EvClose ''p:1''])"
  using C4_deadline_after_dial
      [where r = "test_request ''/h:80'' ''p:1''" and host = "''h''" and port = "''80''"
         and proxy = "''p:1''" and T = 5 and w = NewRecorder and s = start
         and n = "test_network None 3 (Inl (NetError ''i/o timeout'' True))"]
    C4_deadline_after_dial
      [where r = "test_request ''/h:80'' ''p:1''" and host = "''h''" and port = "''80''"
         and proxy = "''p:1''" and T = 0 and w = NewRecorder and s = start
         and n = "test_network None 3 (Inr \<lparr>StatusCode = 200, Header = []\<rparr>)"]
  by (simp add: test_request_simps test_network_simps SplitHostPort_example start_def)

text \<open>
  The claim as stated fails: with a timeout of 5 and a dial that takes 3, starting at time
  0, the only deadline set is 8, a full timeout after the dial, and not 5, the time the
  handler started plus the timeout.
\<close>

theorem C4_counterexample:
  "case proxyHandler_ServeHTTP 5 (test_network None 3 (Inl (NetError ''i/o timeout'' True)))
              (test_request ''/h:80'' ''p:1'') (NewRecorder, start) of
     Panic _ \<Rightarrow> False
   | Return (w', s') \<Rightarrow> deadlines (trace s') = [8] \<and> deadlines (trace s') \<noteq> [clock start + 5]"
  by code_simp

section \<open>Copying the proxy's headers\<close>

lemma copy_values_eq:
  "copy_values h k vals = (if vals = [] then h else h(CanonicalMIMEHeaderKey k \<mapsto> [last vals]))"
  by (induction vals arbitrary: h) (auto simp: Header_Set_def)

lemma copy_headers_Content_Length:
  "h ''Content-Length'' = None \<Longrightarrow> copy_headers h hs ''Content-Length'' = None"
  by (induction h hs rule: copy_headers.induct)
     (simp_all add: Header_Del_def canon_content_length)

lemma copy_headers_dom:
  "x \<in> dom (copy_headers h hs) \<Longrightarrow> x \<in> dom h \<or> (\<exists>k. x = CanonicalMIMEHeaderKey k)"
proof (induction h hs rule: copy_headers.induct)
  case (1 h)
  then show ?case by simp
next
  case (2 h k vals rest)
  from 2 have "x \<in> dom (Header_Del (copy_values h k vals) ''content-length'') \<or> (\<exists>k. x = CanonicalMIMEHeaderKey k)"
    by simp
  then show ?case
    by (auto simp: Header_Del_def copy_values_eq split: if_splits)
qed

lemma copy_headers_lookup:
  assumes "distinct (map fst hs)" and "\<forall>k \<in> fst ` set hs. CanonicalMIMEHeaderKey k = k"
    and "x \<noteq> ''Content-Length''"
  shows "copy_headers h hs x =
           (case map_of hs x of
              None \<Rightarrow> h x
            | Some vals \<Rightarrow> if vals = [] then h x else Some [last vals])"
  using assms
proof (induction h hs rule: copy_headers.induct)
  case (1 h)
  then show ?case by simp
next
  case (2 h k vals rest)
  have k: "CanonicalMIMEHeaderKey k = k" using 2(3) by simp
  have nk: "map_of rest k = None" using 2(2) by (simp add: map_of_eq_None_iff)
  have IH: "copy_headers (Header_Del (copy_values h k vals) ''content-length'') rest x =
      (case map_of rest x of None \<Rightarrow> Header_Del (copy_values h k vals) ''content-length'' x
       | Some vs \<Rightarrow> if vs = [] then Header_Del (copy_values h k vals) ''content-length'' x
                    else Some [last vs])"
    using 2 by simp
  show ?case
    using IH nk k 2(4)
    by (auto simp: Header_Del_def canon_content_length copy_values_eq split: option.splits)
qed
lemma canon_Content_Type: "CanonicalMIMEHeaderKey ''Content-Type'' = ''Content-Type''"
  using Canonical_idem [of "''content-type''"] by (simp only: canon_content_type)

lemma canon_Content_Length: "CanonicalMIMEHeaderKey ''Content-Length'' = ''Content-Length''"
  using Canonical_idem [of "''content-length''"] by (simp only: canon_content_length)

section \<open>A response read from the proxy (C3)\<close>

text \<open>
  Claim C3, as amended. \<^verbatim>\<open>http.ReadResponse\<close> accepts any status code of three digits,
  \<^verbatim>\<open>000\<close> included, and \<^verbatim>\<open>WriteHeader\<close> panics on a code below 100 or above 999. When the
  proxy's response is read and parsed with a status code from 100 to 999, the handler
  returns with the status \<^verbatim>\<open>OK\<close>, no error and the proxy address as supplied; the status
  code written is the one of the proxy's response, 4xx and 5xx included; and the header
  map of the outbound response, which starts out empty, holds no key that is a spelling
  of \<^verbatim>\<open>Content-Length\<close>. When the status code is below 100 or above 999, the handler
  panics in \<^verbatim>\<open>WriteHeader\<close>: no status code and no body are written, and the proxy
  connection is closed all the same.
\<close>

theorem C3_proxy_response_passed_through:
  assumes "URL_Path r \<noteq> []" and "SplitHostPort (drop 1 (URL_Path r)) = Inr (host, port)"
    and "Values_Get (URL_Query r) ''proxy'' = proxy"
    and "connect n T proxy = None"
    and "reply n proxy (CONNECT_request host port) = Inr res"
    and "Code w = None" and "HeaderMap w = Map.empty"
  shows "(100 \<le> StatusCode res \<and> StatusCode res \<le> 999 \<longrightarrow>
            (\<exists>w' s'. proxyHandler_ServeHTTP T n r (w, s) = Return (w', s') \<and>
               Code w' = Some (StatusCode res) \<and>
               Body w' = Body w @ [\<lparr>Status = ''OK'', Error = [], Proxy = proxy\<rparr>] \<and>
               (\<forall>k. CanonicalMIMEHeaderKey k = ''Content-Length'' \<longrightarrow> HeaderMap w' k = None))) \<and>
         (StatusCode res < 100 \<or> 999 < StatusCode res \<longrightarrow>
            (\<exists>w' s'. proxyHandler_ServeHTTP T n r (w, s) = Panic (w', s') \<and>
               Code w' = None \<and> Body w' = Body w \<and> last (trace s') = EvClose proxy))"
proof (intro conjI impI)
  assume range: "100 \<le> StatusCode res \<and> StatusCode res \<le> 999"
  let ?w = "written (w\<lparr>HeaderMap := copy_headers (HeaderMap w) (Header res)\<rparr>)
                     (StatusCode res) \<lparr>Status = ''OK'', Error = [], Proxy = proxy\<rparr>"
  from proxy_read_ok_Return [OF assms(1-5), of w s] range obtain s' where
    r: "proxyHandler_ServeHTTP T n r (w, s) = Return (?w, s')" by blast
  have c: "Code ?w = Some (StatusCode res)"
    using assms(6) by (simp add: written_Code)
  have b: "Body ?w = Body w @ [\<lparr>Status = ''OK'', Error = [], Proxy = proxy\<rparr>]"
    by (simp add: written_Body)
  have h: "HeaderMap ?w = (copy_headers Map.empty (Header res))
             (''Content-Type'' \<mapsto> [''application/json;charset=utf-8''])"
    using assms(7) by (simp add: written_HeaderMap Header_Set_def canon_content_type)
  have "HeaderMap ?w k = None" if k: "CanonicalMIMEHeaderKey k = ''Content-Length''" for k
  proof (rule ccontr)
    assume "HeaderMap ?w k \<noteq> None"
    moreover have "k \<noteq> ''Content-Type''"
      using k canon_Content_Type by auto
    ultimately have "k \<in> dom (copy_headers Map.empty (Header res))"
      using h by (auto simp: dom_def)
    then obtain k' where "k = CanonicalMIMEHeaderKey k'"
      using copy_headers_dom [of k Map.empty "Header res"] by auto
    then have "k = ''Content-Length''"
      using k Canonical_idem [of k'] by simp
    then show False
      using \<open>k \<in> dom (copy_headers Map.empty (Header res))\<close>
        copy_headers_Content_Length [of Map.empty "Header res"] by auto
  qed
  then show "\<exists>w' s'. proxyHandler_ServeHTTP T n r (w, s) = Return (w', s') \<and>
               Code w' = Some (StatusCode res) \<and>
               Body w' = Body w @ [\<lparr>Status = ''OK'', Error = [], Proxy = proxy\<rparr>] \<and>
               (\<forall>k. CanonicalMIMEHeaderKey k = ''Content-Length'' \<longrightarrow> HeaderMap w' k = None)"
    using r c b by blast
next
  assume "StatusCode res < 100 \<or> 999 < StatusCode res"
  from proxy_read_ok_Panic [OF assms(1-5) this assms(6), of s] obtain w' s' where
    p: "proxyHandler_ServeHTTP T n r (w, s) = Panic (w', s')" "Code w' = None" "Body w' = Body w"
    and t: "trace s' = trace s @ tunnel_events T (clock s + connect_time n T proxy) proxy host port"
    by blast
  have "last (trace s') = EvClose proxy"
    using t by (simp add: tunnel_events_def)
  with p show "\<exists>w' s'. proxyHandler_ServeHTTP T n r (w, s) = Panic (w', s') \<and>
               Code w' = None \<and> Body w' = Body w \<and> last (trace s') = EvClose proxy"
    by blast
qed

theorem C3_proxy_response_passed_through_witness:
  "(\<exists>w' s'. proxyHandler_ServeHTTP 5
              (test_network None 3
                 (Inr \<lparr>StatusCode = 502, Header = [(''Content-Length'', [''0'']), (''Via'', [''1.1 p''])]\<rparr>))
              (test_request ''/h:80'' ''p:1'') (NewRecorder, start) = Return (w', s') \<and>
           Code w' = Some 502 \<and>
           Body w' = [\<lparr>Status = ''OK'', Error = [], Proxy = ''p:1''\<rparr>] \<and>
           HeaderMap w' ''Content-Length'' = None \<and> HeaderMap w' ''content-length'' = None) \<and>
   (\<exists>w' s'. proxyHandler_ServeHTTP 5
              (test_network None 3 (Inr \<lparr>StatusCode = 0, Header = []\<rparr>))
              (test_request ''/h:80'' ''p:1'') (NewRecorder, start) = Panic (w', s') \<and>
           Code w' = None \<and> Body w' = [] \<and> last (trace s') = EvClose ''p:1'')"
proof -
  from C3_proxy_response_passed_through
      [where r = "test_request ''/h:80'' ''p:1''" and host = "''h''" and port = "''80''"
         and proxy = "''p:1''" and T = 5 and w = NewRecorder and s = start
         and n = "test_network None 3
                 (Inr \<lparr>StatusCode = 502, Header = [(''Content-Length'', [''0'']), (''Via'', [''1.1 p''])]\<rparr>)"
         and res = "\<lparr>StatusCode = 502, Header = [(''Content-Length'', [''0'']), (''Via'', [''1.1 p''])]\<rparr>"]
  obtain w' s' where
    "proxyHandler_ServeHTTP 5
              (test_network None 3
                 (Inr \<lparr>StatusCode = 502, Header = [(''Content-Length'', [''0'']), (''Via'', [''1.1 p''])]\<rparr>))
              (test_request ''/h:80'' ''p:1'') (NewRecorder, start) = Return (w', s')"
    "Code w' = Some 502" "Body w' = [\<lparr>Status = ''OK'', Error = [], Proxy = ''p:1''\<rparr>]"
    "\<forall>k. CanonicalMIMEHeaderKey k = ''Content-Length'' \<longrightarrow> HeaderMap w' k = None"
    by (auto simp add: test_request_simps test_network_simps NewRecorder_simps SplitHostPort_example)
  then have first: "\<exists>w' s'. proxyHandler_ServeHTTP 5
              (test_network None 3
                 (Inr \<lparr>StatusCode = 502, Header = [(''Content-Length'', [''0'']), (''Via'', [''1.1 p''])]\<rparr>))
              (test_request ''/h:80'' ''p:1'') (NewRecorder, start) = Return (w', s') \<and>
           Code w' = Some 502 \<and>
           Body w' = [\<lparr>Status = ''OK'', Error = [], Proxy = ''p:1''\<rparr>] \<and>
           HeaderMap w' ''Content-Length'' = None \<and> HeaderMap w' ''content-length'' = None"
    using canon_Content_Length canon_content_length by blast
  have second: "\<exists>w' s'. proxyHandler_ServeHTTP 5
              (test_network None 3 (Inr \<lparr>StatusCode = 0, Header = []\<rparr>))
              (test_request ''/h:80'' ''p:1'') (NewRecorder, start) = Panic (w', s') \<and>
           Code w' = None \<and> Body w' = [] \<and> last (trace s') = EvClose ''p:1''"
    using C3_proxy_response_passed_through
      [where r = "test_request ''/h:80'' ''p:1''" and host = "''h''" and port = "''80''"
         and proxy = "''p:1''" and T = 5 and w = NewRecorder and s = start
         and n = "test_network None 3 (Inr \<lparr>StatusCode = 0, Header = []\<rparr>)"
         and res = "\<lparr>StatusCode = 0, Header = []\<rparr>"]
    by (simp add: test_request_simps test_network_simps NewRecorder_simps SplitHostPort_example)
  from first second show ?thesis by blast
qed

text \<open>
  The claim as stated fails: a proxy that answers \<^verbatim>\<open>HTTP/1.1 000\<close> is read and parsed
  with status code 0, and the handler panics in \<^verbatim>\<open>WriteHeader\<close>; it writes neither the
  code 0 nor a result with the status \<^verbatim>\<open>OK\<close>.
\<close>

theorem C3_counterexample:
  "case proxyHandler_ServeHTTP 5 (test_network None 3 (Inr \<lparr>StatusCode = 0, Header = []\<rparr>))
          (test_request ''/h:80'' ''p:1'') (NewRecorder, start) of
     Panic (w', s') \<Rightarrow> Code w' = None \<and> Body w' = []
   | Return (w', s') \<Rightarrow> False"
  by code_simp

section \<open>Which headers are copied (C5)\<close>

text \<open>
  Claim C5, as amended. Take a proxy response that is read and parsed with a status code
  from 100 to 999, so that \<^verbatim>\<open>WriteHeader\<close> accepts it, and a response writer whose header
  map holds no \<^verbatim>\<open>Content-Length\<close> yet, as a fresh one does. Then the handler returns, and
  whatever headers the proxy sent, also none at all: \<^verbatim>\<open>Content-Length\<close> is not on the
  outbound response, and \<^verbatim>\<open>Content-Type\<close> is the one \<^verbatim>\<open>writeJSON\<close> sets. Moreover, the
  keys of a header map that \<^verbatim>\<open>http.ReadResponse\<close> returns are distinct and canonical, and
  for such a map every key of the proxy's response other than \<^verbatim>\<open>Content-Length\<close> and
  \<^verbatim>\<open>Content-Type\<close>, with at least one value, is a key of the outbound response, with
  values taken from the proxy's values for it.
\<close>

theorem C5_headers_copied:
  assumes "URL_Path r \<noteq> []" and "SplitHostPort (drop 1 (URL_Path r)) = Inr (host, port)"
    and "Values_Get (URL_Query r) ''proxy'' = proxy"
    and "connect n T proxy = None"
    and "reply n proxy (CONNECT_request host port) = Inr res"
    and "100 \<le> StatusCode res" and "StatusCode res \<le> 999"
    and "HeaderMap w ''Content-Length'' = None"
  shows "\<exists>w' s'. proxyHandler_ServeHTTP T n r (w, s) = Return (w', s') \<and>
           HeaderMap w' ''Content-Length'' = None \<and>
           HeaderMap w' ''Content-Type'' = Some [''application/json;charset=utf-8''] \<and>
           (distinct (map fst (Header res)) \<and>
            (\<forall>k \<in> fst ` set (Header res). CanonicalMIMEHeaderKey k = k) \<longrightarrow>
            (\<forall>k vals. (k, vals) \<in> set (Header res) \<and> vals \<noteq> [] \<and>
                 k \<noteq> ''Content-Length'' \<and> k \<noteq> ''Content-Type'' \<longrightarrow>
               (\<exists>vs. HeaderMap w' k = Some vs \<and> vs \<noteq> [] \<and> set vs \<subseteq> set vals)))"
proof -
  let ?w = "written (w\<lparr>HeaderMap := copy_headers (HeaderMap w) (Header res)\<rparr>)
                     (StatusCode res) \<lparr>Status = ''OK'', Error = [], Proxy = proxy\<rparr>"
  from proxy_read_ok_Return [OF assms(1-7), of w s] obtain s' where
    r: "proxyHandler_ServeHTTP T n r (w, s) = Return (?w, s')" by blast
  have h: "HeaderMap ?w = (copy_headers (HeaderMap w) (Header res))
             (''Content-Type'' \<mapsto> [''application/json;charset=utf-8''])"
    by (simp add: written_HeaderMap Header_Set_def canon_content_type)
  have cl: "HeaderMap ?w ''Content-Length'' = None"
    using h copy_headers_Content_Length [of "HeaderMap w" "Header res"] assms(8) by simp
  have ct: "HeaderMap ?w ''Content-Type'' = Some [''application/json;charset=utf-8'']"
    using h by simp
  have copied: "\<exists>vs. HeaderMap ?w k = Some vs \<and> vs \<noteq> [] \<and> set vs \<subseteq> set vals"
    if d: "distinct (map fst (Header res))"
      and c: "\<forall>k \<in> fst ` set (Header res). CanonicalMIMEHeaderKey k = k"
      and k: "(k, vals) \<in> set (Header res)" "vals \<noteq> []"
        "k \<noteq> ''Content-Length''" "k \<noteq> ''Content-Type''"
    for k vals
  proof -
    have m: "map_of (Header res) k = Some vals"
      using d k(1) by simp
    have "copy_headers (HeaderMap w) (Header res) k = Some [last vals]"
      using copy_headers_lookup [OF d c k(3), of "HeaderMap w"] m k(2) by simp
    then have "HeaderMap ?w k = Some [last vals]"
      using h k(4) by simp
    moreover have "set [last vals] \<subseteq> set vals"
      using k(2) by simp
    ultimately show ?thesis by blast
  qed
  show ?thesis
    using r cl ct copied by blast
qed

lemma canon_Set_Cookie: "CanonicalMIMEHeaderKey ''Set-Cookie'' = ''Set-Cookie''"
  by code_simp

theorem C5_headers_copied_witness:
  "(\<exists>w' s'. proxyHandler_ServeHTTP 5
              (test_network None 3
                 (Inr \<lparr>StatusCode = 200,
                       Header = [(''Set-Cookie'', [''a'', ''b'']), (''Content-Length'', [''0''])]\<rparr>))
              (test_request ''/h:80'' ''p:1'') (NewRecorder, start) = Return (w', s') \<and>
           HeaderMap w' ''Content-Length'' = None \<and>
           HeaderMap w' ''Content-Type'' = Some [''application/json;charset=utf-8''] \<and>
           (\<exists>vs. HeaderMap w' ''Set-Cookie'' = Some vs \<and> vs \<noteq> [] \<and> set vs \<subseteq> {''a'', ''b''})) \<and>
   (\<exists>w' s'. proxyHandler_ServeHTTP 5
              (test_network None 3 (Inr \<lparr>StatusCode = 200, Header = []\<rparr>))
              (test_request ''/h:80'' ''p:1'') (NewRecorder, start) = Return (w', s') \<and>
           HeaderMap w' ''Content-Length'' = None \<and>
           HeaderMap w' ''Content-Type'' = Some [''application/json;charset=utf-8''])"
proof -
  from C5_headers_copied
      [where r = "test_request ''/h:80'' ''p:1''" and host = "''h''" and port = "''80''"
         and proxy = "''p:1''" and T = 5 and w = NewRecorder and s = start
         and n = "test_network None 3
                 (Inr \<lparr>StatusCode = 200,
                       Header = [(''Set-Cookie'', [''a'', ''b'']), (''Content-Length'', [''0''])]\<rparr>)"
         and res = "\<lparr>StatusCode = 200,
                       Header = [(''Set-Cookie'', [''a'', ''b'']), (''Content-Length'', [''0''])]\<rparr>"]
  obtain w' s' where
    a: "proxyHandler_ServeHTTP 5
              (test_network None 3
                 (Inr \<lparr>StatusCode = 200,
                       Header = [(''Set-Cookie'', [''a'', ''b'']), (''Content-Length'', [''0''])]\<rparr>))
              (test_request ''/h:80'' ''p:1'') (NewRecorder, start) = Return (w', s')"
      "HeaderMap w' ''Content-Length'' = None"
      "HeaderMap w' ''Content-Type'' = Some [''application/json;charset=utf-8'']"
    and b: "\<forall>k vals. (k, vals) \<in> {(''Set-Cookie'', [''a'', ''b'']), (''Content-Length'', [''0''])} \<and>
                 vals \<noteq> [] \<and> k \<noteq> ''Content-Length'' \<and> k \<noteq> ''Content-Type'' \<longrightarrow>
               (\<exists>vs. HeaderMap w' k = Some vs \<and> vs \<noteq> [] \<and> set vs \<subseteq> set vals)"
    by (auto simp add: test_request_simps test_network_simps NewRecorder_simps
        SplitHostPort_example canon_Set_Cookie canon_Content_Length)
  from b have "\<exists>vs. HeaderMap w' ''Set-Cookie'' = Some vs \<and> vs \<noteq> [] \<and> set vs \<subseteq> {''a'', ''b''}"
    by fastforce
  with a have first: "\<exists>w' s'. proxyHandler_ServeHTTP 5
              (test_network None 3
                 (Inr \<lparr>StatusCode = 200,
                       Header = [(''Set-Cookie'', [''a'', ''b'']), (''Content-Length'', [''0''])]\<rparr>))
              (test_request ''/h:80'' ''p:1'') (NewRecorder, start) = Return (w', s') \<and>
           HeaderMap w' ''Content-Length'' = None \<and>
           HeaderMap w' ''Content-Type'' = Some [''application/json;charset=utf-8''] \<and>
           (\<exists>vs. HeaderMap w' ''Set-Cookie'' = Some vs \<and> vs \<noteq> [] \<and> set vs \<subseteq> {''a'', ''b''})"
    by blast
  have second: "\<exists>w' s'. proxyHandler_ServeHTTP 5
              (test_network None 3 (Inr \<lparr>StatusCode = 200, Header = []\<rparr>))
              (test_request ''/h:80'' ''p:1'') (NewRecorder, start) = Return (w', s') \<and>
           HeaderMap w' ''Content-Length'' = None \<and>
           HeaderMap w' ''Content-Type'' = Some [''application/json;charset=utf-8'']"
    using C5_headers_copied
      [where r = "test_request ''/h:80'' ''p:1''" and host = "''h''" and port = "''80''"
         and proxy = "''p:1''" and T = 5 and w = NewRecorder and s = start
         and n = "test_network None 3 (Inr \<lparr>StatusCode = 200, Header = []\<rparr>)"
         and res = "\<lparr>StatusCode = 200, Header = []\<rparr>"]
    by (simp add: test_request_simps test_network_simps NewRecorder_simps SplitHostPort_example)
  from first second show ?thesis by blast
qed

text \<open>
  The claim as stated fails twice on one response: the proxy's \<^verbatim>\<open>Content-Type\<close> is
  replaced by the JSON content type, so \<^verbatim>\<open>Content-Length\<close> is not the single exception; and
  of the two values of \<^verbatim>\<open>Set-Cookie\<close> only the last is on the outbound response, since
  each \<^verbatim>\<open>Set\<close> replaces the value before.
\<close>

theorem C5_counterexample:
  "case proxyHandler_ServeHTTP 5
          (test_network None 3
             (Inr \<lparr>StatusCode = 200,
                   Header = [(''Content-Type'', [''text/html'']), (''Set-Cookie'', [''a'', ''b''])]\<rparr>))
          (test_request ''/h:80'' ''p:1'') (NewRecorder, start) of
     Panic _ \<Rightarrow> False
   | Return (w', s') \<Rightarrow>
       HeaderMap w' ''Content-Type'' = Some [''application/json;charset=utf-8''] \<and>
       HeaderMap w' ''Content-Type'' \<noteq> Some [''text/html''] \<and>
       HeaderMap w' ''Set-Cookie'' = Some [''b''] \<and>
       HeaderMap w' ''Set-Cookie'' \<noteq> Some [''a'', ''b'']"
  by code_simp

section \<open>The direct probe\<close>

lemma plain_parse_failed:
  assumes "URL_Path r \<noteq> []" and "SplitHostPort (drop 1 (URL_Path r)) = Inl err"
  shows "plain T n r (w, s) =
           Return (written w StatusBadRequest
             \<lparr>Status = ''INVALID_HOST'', Error = AddrError_Error err, Proxy = []\<rparr>, s)"
  using assms by (simp add: plain_def stop_def writeJSON_Return StatusBadRequest_def)

lemma plain_dial_failed:
  assumes "URL_Path r \<noteq> []" and "SplitHostPort (drop 1 (URL_Path r)) = Inr (host, port)"
    and "connect n T (JoinHostPort host port) = Some err"
  shows "plain T n r (w, s) =
           Return (written w StatusBadGateway
             \<lparr>Status = ''HOST_CONNECT_FAIL'', Error = error_Error err, Proxy = []\<rparr>,
             s\<lparr>clock := clock s + connect_time n T (JoinHostPort host port),
               trace := trace s @ [EvDial (JoinHostPort host port)]\<rparr>)"
  using assms
  by (simp add: plain_def plainTest_Check_def Dialer_Dial_def stop_def writeJSON_Return
      StatusBadGateway_def)

lemma plain_dial_ok:
  assumes "URL_Path r \<noteq> []" and "SplitHostPort (drop 1 (URL_Path r)) = Inr (host, port)"
    and "connect n T (JoinHostPort host port) = None"
  shows "plain T n r (w, s) =
           Return (written w StatusOK \<lparr>Status = ''OK'', Error = [], Proxy = []\<rparr>,
             s\<lparr>clock := clock s + connect_time n T (JoinHostPort host port),
               trace := trace s @ [EvDial (JoinHostPort host port), EvClose (JoinHostPort host port)]\<rparr>)"
  using assms
  by (simp add: plain_def plainTest_Check_def Dialer_Dial_def Conn_Close_def stop_def
      writeJSON_Return StatusOK_def)

lemma SplitHostPort_error_text:
  "SplitHostPort hostport = Inl err \<Longrightarrow> AddrError_Error err \<noteq> []"
  by (auto simp: SplitHostPort_def SplitHostPort_tail_def addrErr_def Let_def AddrError_Error_def
      missingPort_def tooManyColons_def split: if_splits)

lemma plain_result:
  assumes "URL_Path r \<noteq> []"
    and "\<forall>t a e. connect n t a = Some e \<longrightarrow> error_Error e \<noteq> []"
  shows "\<exists>w' s' v. plain T n r (w, s) = Return (w', s') \<and> Body w' = Body w @ [v] \<and>
           Status v \<in> {''OK'', ''INVALID_HOST'', ''HOST_CONNECT_FAIL''} \<and>
           (Error v \<noteq> [] \<longleftrightarrow> Status v \<noteq> ''OK'') \<and> Proxy v = []"
proof (cases "SplitHostPort (drop 1 (URL_Path r))")
  case (Inl err)
  from plain_parse_failed [OF assms(1) Inl, of T n w s] SplitHostPort_error_text [OF Inl]
  show ?thesis by (simp add: written_Body)
next
  case (Inr hp)
  obtain host port where hp: "hp = (host, port)" by (cases hp)
  show ?thesis
  proof (cases "connect n T (JoinHostPort host port)")
    case None
    from plain_dial_ok [OF assms(1) Inr [unfolded hp] None, of w s]
    show ?thesis by (simp add: written_Body)
  next
    case (Some err)
    from plain_dial_failed [OF assms(1) Inr [unfolded hp] Some, of w s] assms(2) Some
    show ?thesis by (simp add: written_Body)
  qed
qed

lemma proxy_result:
  assumes "URL_Path r \<noteq> []"
    and "\<forall>t a e. connect n t a = Some e \<longrightarrow> error_Error e \<noteq> []"
    and "\<forall>a b. reply n a b \<noteq> Inl (PlainError [])"
    and "Values_Get (URL_Query r) ''proxy'' = proxy"
  shows "\<exists>w' s'.
           proxyHandler_ServeHTTP T n r (w, s) = Return (w', s') \<and>
             (\<exists>v. Body w' = Body w @ [v] \<and>
                  (Error v \<noteq> [] \<longleftrightarrow> Status v \<noteq> ''OK'') \<and> Proxy v = proxy) \<or>
           proxyHandler_ServeHTTP T n r (w, s) = Panic (w', s') \<and>
             (\<exists>a b res. reply n a b = Inr res \<and> (StatusCode res < 100 \<or> 999 < StatusCode res))"
proof (cases "SplitHostPort (drop 1 (URL_Path r))")
  case (Inl err)
  from proxy_parse_failed [OF assms(1) Inl assms(4), of T n w s] SplitHostPort_error_text [OF Inl]
  show ?thesis by (simp add: written_Body)
next
  case (Inr hp)
  obtain host port where hp: "hp = (host, port)" by (cases hp)
  note sp = Inr [unfolded hp]
  show ?thesis
  proof (cases "connect n T proxy")
    case (Some err)
    from proxy_dial_failed [OF assms(1) sp assms(4) Some, of w s] assms(2) Some
    show ?thesis by (simp add: written_Body)
  next
    case None
    show ?thesis
    proof (cases "reply n proxy (CONNECT_request host port)")
      case (Inr res)
      show ?thesis
      proof (cases "100 \<le> StatusCode res \<and> StatusCode res \<le> 999")
        case True
        with proxy_read_ok_Return [OF assms(1) sp assms(4) None Inr, of w s]
        show ?thesis by (auto simp: written_Body)
      next
        case False
        from proxy_dialed_trace [OF assms(1) sp assms(4) None, of w s] obtain w' s' where
          "proxyHandler_ServeHTTP T n r (w, s) = Return (w', s') \<or>
           proxyHandler_ServeHTTP T n r (w, s) = Panic (w', s')"
          by blast
        then show ?thesis
        proof
          assume ret: "proxyHandler_ServeHTTP T n r (w, s) = Return (w', s')"
          from proxy_read_ok [OF assms(1) sp assms(4) None Inr, of w s] ret
          have "\<exists>v. Body w' = Body w @ [v] \<and>
                  (Error v \<noteq> [] \<longleftrightarrow> Status v \<noteq> ''OK'') \<and> Proxy v = proxy"
            by (auto simp: writeJSON_eq stop_def written_Body split: if_splits)
          with ret show ?thesis by blast
        next
          assume "proxyHandler_ServeHTTP T n r (w, s) = Panic (w', s')"
          with Inr False show ?thesis by force
        qed
      qed
    next
      case (Inl err)
      show ?thesis
      proof (cases err)
        case (PlainError msg)
        have "msg \<noteq> []" using assms(3) Inl PlainError by metis
        with proxy_read_failed [OF assms(1) sp assms(4) None Inl, of _ _ w s]
          read_failed_PlainError [of msg "\<lparr>Status = ''OK'', Error = [], Proxy = proxy\<rparr>"] PlainError
        show ?thesis by (auto simp: written_Body)
      next
        case (NetError msg t)
        show ?thesis
        proof (cases t)
          case True
          with proxy_read_failed [OF assms(1) sp assms(4) None Inl, of _ _ w s]
            read_failed_NetError_timeout [of msg "\<lparr>Status = ''OK'', Error = [], Proxy = proxy\<rparr>"] NetError
          show ?thesis by (auto simp: written_Body)
        next
          case False
          with proxy_read_failed [OF assms(1) sp assms(4) None Inl, of _ _ w s]
            read_failed_NetError_no_timeout [of msg "\<lparr>Status = ''OK'', Error = [], Proxy = proxy\<rparr>"] NetError
          show ?thesis by (auto simp: written_Body)
        qed
      qed
    qed
  qed
qed

lemma json_keys_error: "''error'' \<in> set (json_keys v) \<longleftrightarrow> Error v \<noteq> []"
  by (simp add: json_keys_def)

lemma json_keys_proxy: "''proxy'' \<in> set (json_keys v) \<longleftrightarrow> Proxy v \<noteq> []"
  by (simp add: json_keys_def)

lemma test_request_direct_simps:
  "URL_Path (test_request_direct path) = path"
  "Values_Get (URL_Query (test_request_direct path)) ''proxy'' = []"
  by (simp_all add: test_request_direct_def Values_Get_def)

section \<open>The fields of a result (C9)\<close>

text \<open>
  Claim C9. Errors of Go's network and HTTP libraries have a text that is not empty; the
  network of the model is assumed to be like that (for a \<^verbatim>\<open>net.Error\<close> read from the proxy
  the handler adds a prefix itself, so only the other read errors matter). The request has
  a path. Then the handler \<^verbatim>\<open>Run\<close> returns having encoded one result, whose JSON object
  has the key \<^verbatim>\<open>error\<close> exactly when the status is not \<^verbatim>\<open>OK\<close>, and the key \<^verbatim>\<open>proxy\<close>
  exactly when the request named a proxy, that is, exactly when the proxy probe ran and
  not the direct one. The handler fails to return a result only by the panic of
  \<^verbatim>\<open>WriteHeader\<close>, for which the network has to answer with a status code below 100 or
  above 999.
\<close>

theorem C9_result_fields:
  assumes "URL_Path r \<noteq> []"
    and "\<forall>t a e. connect n t a = Some e \<longrightarrow> error_Error e \<noteq> []"
    and "\<forall>a b. reply n a b \<noteq> Inl (PlainError [])"
  shows "\<exists>w' s'.
           Run T n r (w, s) = Return (w', s') \<and>
             (\<exists>v. Body w' = Body w @ [v] \<and>
                (''error'' \<in> set (json_keys v) \<longleftrightarrow> Status v \<noteq> ''OK'') \<and>
                (''proxy'' \<in> set (json_keys v) \<longleftrightarrow> Values_Get (URL_Query r) ''proxy'' \<noteq> [])) \<or>
           Run T n r (w, s) = Panic (w', s') \<and>
             (\<exists>a b res. reply n a b = Inr res \<and> (StatusCode res < 100 \<or> 999 < StatusCode res))"
proof (cases "Values_Get (URL_Query r) ''proxy'' = []")
  case True
  with plain_result [OF assms(1,2), of T w s] show ?thesis
    unfolding json_keys_error json_keys_proxy by (auto simp: Run_def)
next
  case False
  from proxy_result [OF assms refl, of T w s] obtain w' s' where
    "proxyHandler_ServeHTTP T n r (w, s) = Return (w', s') \<and>
       (\<exists>v. Body w' = Body w @ [v] \<and>
            (Error v \<noteq> [] \<longleftrightarrow> Status v \<noteq> ''OK'') \<and> Proxy v = Values_Get (URL_Query r) ''proxy'') \<or>
     proxyHandler_ServeHTTP T n r (w, s) = Panic (w', s') \<and>
       (\<exists>a b res. reply n a b = Inr res \<and> (StatusCode res < 100 \<or> 999 < StatusCode res))"
    by blast
  moreover have "Run T n r (w, s) = proxyHandler_ServeHTTP T n r (w, s)"
    using False by (simp add: Run_def)
  ultimately show ?thesis
    unfolding json_keys_error json_keys_proxy using False by force
qed

theorem C9_result_fields_witness:
  "(\<exists>w' s' v. Run 5 (test_network (Some (NetError ''dial tcp 127.0.0.1:1: connection refused'' False))
                      0 (Inl (PlainError ''unused'')))
               (test_request_direct ''/127.0.0.1:1'') (NewRecorder, start) = Return (w', s') \<and>
             Body w' = [v] \<and>
             (''error'' \<in> set (json_keys v) \<longleftrightarrow> Status v \<noteq> ''OK'') \<and>
             ''proxy'' \<notin> set (json_keys v)) \<and>
   (\<exists>w' s' v. Run 5 (test_network None 3 (Inr \<lparr>StatusCode = 200, Header = []\<rparr>))
               (test_request ''/h:80'' ''p:1'') (NewRecorder, start) = Return (w', s') \<and>
             Body w' = [v] \<and>
             (''error'' \<in> set (json_keys v) \<longleftrightarrow> Status v \<noteq> ''OK'') \<and>
             ''proxy'' \<in> set (json_keys v))"
  using C9_result_fields
      [where r = "test_request_direct ''/127.0.0.1:1''" and T = 5 and w = NewRecorder and s = start
         and n = "test_network (Some (NetError ''dial tcp 127.0.0.1:1: connection refused'' False))
                      0 (Inl (PlainError ''unused''))"]
    C9_result_fields
      [where r = "test_request ''/h:80'' ''p:1''" and T = 5 and w = NewRecorder and s = start
         and n = "test_network None 3 (Inr \<lparr>StatusCode = 200, Header = []\<rparr>)"]
  by (simp add: test_request_simps test_request_direct_simps test_network_simps NewRecorder_simps)

lemma plain_status:
  assumes "URL_Path r \<noteq> []"
  shows "\<exists>w' s' v. plain T n r (w, s) = Return (w', s') \<and> Body w' = Body w @ [v] \<and>
           Status v \<in> {''OK'', ''INVALID_HOST'', ''HOST_CONNECT_FAIL''}"
proof (cases "SplitHostPort (drop 1 (URL_Path r))")
  case (Inl err)
  from plain_parse_failed [OF assms(1) Inl, of T n w s]
  show ?thesis by (simp add: written_Body)
next
  case (Inr hp)
  obtain host port where hp: "hp = (host, port)" by (cases hp)
  show ?thesis
  proof (cases "connect n T (JoinHostPort host port)")
    case None
    from plain_dial_ok [OF assms(1) Inr [unfolded hp] None, of w s]
    show ?thesis by (simp add: written_Body)
  next
    case (Some err)
    from plain_dial_failed [OF assms(1) Inr [unfolded hp] Some, of w s]
    show ?thesis by (simp add: written_Body)
  qed
qed

lemma plain_ignores_query: "plain T n (r\<lparr>URL_Query := q\<rparr>) ws = plain T n r ws"
  by (cases ws; cases "URL_Path r = []") (simp_all add: plain_def)

section \<open>An empty proxy parameter (C10)\<close>

text \<open>
  Claim C10. A request whose query has the key \<^verbatim>\<open>proxy\<close> with an empty first value is
  served exactly as the same request without the key: by the direct probe. So whenever
  the handler returns, the status is one of the direct probe's, and none of \<^verbatim>\<open>BAD_URL\<close>,
  \<^verbatim>\<open>PROXY_UNREACHABLE\<close>, \<^verbatim>\<open>PROXY_CONNECT_ERROR\<close>; it fails to return only on an empty
  path.
\<close>

theorem C10_empty_proxy_runs_direct_probe:
  assumes "URL_Query r ''proxy'' = Some ([] # vs)"
  shows "Run T n r (w, s) = Run T n (r\<lparr>URL_Query := (URL_Query r)(''proxy'' := None)\<rparr>) (w, s) \<and>
         Run T n r (w, s) = plain T n r (w, s) \<and>
         (case Run T n r (w, s) of
            Panic _ \<Rightarrow> URL_Path r = []
          | Return (w', s') \<Rightarrow>
              \<exists>v. Body w' = Body w @ [v] \<and>
                  Status v \<in> {''OK'', ''INVALID_HOST'', ''HOST_CONNECT_FAIL''} \<and>
                  Status v \<notin> {''BAD_URL'', ''PROXY_UNREACHABLE'', ''PROXY_CONNECT_ERROR''})"
proof -
  have g: "Values_Get (URL_Query r) ''proxy'' = []"
    using assms by (simp add: Values_Get_def)
  have g': "Values_Get ((URL_Query r)(''proxy'' := None)) ''proxy'' = []"
    by (simp add: Values_Get_def)
  have a: "Run T n r (w, s) = plain T n r (w, s)"
    using g by (simp add: Run_def)
  have b: "Run T n (r\<lparr>URL_Query := (URL_Query r)(''proxy'' := None)\<rparr>) (w, s) = plain T n r (w, s)"
    using g' by (simp add: Run_def plain_ignores_query)
  have c: "case plain T n r (w, s) of
            Panic _ \<Rightarrow> URL_Path r = []
          | Return (w', s') \<Rightarrow>
              \<exists>v. Body w' = Body w @ [v] \<and>
                  Status v \<in> {''OK'', ''INVALID_HOST'', ''HOST_CONNECT_FAIL''} \<and>
                  Status v \<notin> {''BAD_URL'', ''PROXY_UNREACHABLE'', ''PROXY_CONNECT_ERROR''}"
  proof (cases "URL_Path r = []")
    case True
    then show ?thesis by (simp add: plain_def)
  next
    case False
    from plain_status [OF False, of T n w s] show ?thesis by auto
  qed
  show ?thesis using a b c by simp
qed

theorem C10_empty_proxy_runs_direct_probe_witness:
  "Run 5 (test_network None 0 (Inl (PlainError ''unused''))) (test_request ''/h:80'' []) (NewRecorder, start)
     = Run 5 (test_network None 0 (Inl (PlainError ''unused'')))
         (test_request ''/h:80'' []\<lparr>URL_Query := (URL_Query (test_request ''/h:80'' []))(''proxy'' := None)\<rparr>)
         (NewRecorder, start) \<and>
   Run 5 (test_network None 0 (Inl (PlainError ''unused''))) (test_request ''/h:80'' []) (NewRecorder, start)
     = plain 5 (test_network None 0 (Inl (PlainError ''unused''))) (test_request ''/h:80'' []) (NewRecorder, start) \<and>
   (case Run 5 (test_network None 0 (Inl (PlainError ''unused''))) (test_request ''/h:80'' []) (NewRecorder, start) of
      Panic _ \<Rightarrow> False
    | Return (w', s') \<Rightarrow> \<exists>v. Body w' = [v] \<and> Status v = ''OK'')"
proof -
  have q: "URL_Query (test_request ''/h:80'' []) ''proxy'' = Some ([] # [])"
    by (simp add: test_request_def)
  have ok: "case Run 5 (test_network None 0 (Inl (PlainError ''unused''))) (test_request ''/h:80'' []) (NewRecorder, start) of
      Panic _ \<Rightarrow> False
    | Return (w', s') \<Rightarrow> \<exists>v. Body w' = [v] \<and> Status v = ''OK''"
    by (simp add: Run_def plain_def test_request_def test_network_def Values_Get_def
        SplitHostPort_example plainTest_Check_def Dialer_Dial_def stop_def writeJSON_Return
        StatusOK_def written_Body NewRecorder_def)
  from C10_empty_proxy_runs_direct_probe
      [OF q, of 5 "test_network None 0 (Inl (PlainError ''unused''))" NewRecorder start]
  have "Run 5 (test_network None 0 (Inl (PlainError ''unused''))) (test_request ''/h:80'' []) (NewRecorder, start)
     = Run 5 (test_network None 0 (Inl (PlainError ''unused'')))
         (test_request ''/h:80'' []\<lparr>URL_Query := (URL_Query (test_request ''/h:80'' []))(''proxy'' := None)\<rparr>)
         (NewRecorder, start)"
    and "Run 5 (test_network None 0 (Inl (PlainError ''unused''))) (test_request ''/h:80'' []) (NewRecorder, start)
     = plain 5 (test_network None 0 (Inl (PlainError ''unused''))) (test_request ''/h:80'' []) (NewRecorder, start)"
    by blast+
  with ok show ?thesis by blast
qed

section \<open>The target parser\<close>

lemma IndexByteString_ge: "- 1 \<le> IndexByteString s c"
  by (induction s) (auto simp: Let_def)

lemma IndexByteString_neg_iff: "IndexByteString s c < 0 \<longleftrightarrow> c \<notin> set s"
  using IndexByteString_ge [of _ c] by (induction s) (auto simp: Let_def)

lemma IndexByteString_first:
  "c \<notin> set a \<Longrightarrow> IndexByteString (a @ c # b) c = int (length a)"
  by (induction a) (auto simp: Let_def)

lemma LastIndexByteString_neg_iff: "LastIndexByteString s c < 0 \<longleftrightarrow> c \<notin> set s"
  by (induction s) (auto simp: Let_def)

lemma LastIndexByteString_last:
  "c \<notin> set b \<Longrightarrow> LastIndexByteString (a @ c # b) c = int (length a)"
proof (induction a)
  case Nil
  then show ?case using LastIndexByteString_neg_iff [of b c] by (simp add: Let_def)
next
  case (Cons x a)
  then show ?case by (simp add: Let_def)
qed

lemma IndexByteString_split:
  assumes "0 \<le> IndexByteString s c"
  obtains a b where "s = a @ c # b" and "c \<notin> set a" and "IndexByteString s c = int (length a)"
proof -
  from assms have "c \<in> set s" using IndexByteString_neg_iff [of s c] by auto
  then obtain a b where "s = a @ c # b" "c \<notin> set a" by (auto dest: split_list_first)
  then show ?thesis using that IndexByteString_first by blast
qed

lemma LastIndexByteString_split:
  assumes "0 \<le> LastIndexByteString s c"
  obtains a b where "s = a @ c # b" and "c \<notin> set b" and "LastIndexByteString s c = int (length a)"
proof -
  from assms have "c \<in> set s" using LastIndexByteString_neg_iff [of s c] by auto
  then obtain a b where "s = a @ c # b" "c \<notin> set b" by (auto dest: split_list_last)
  then show ?thesis using that LastIndexByteString_last by blast
qed

lemma drop_prefix: "length xs = n \<Longrightarrow> drop n (xs @ ys) = ys"
  by simp

lemma SplitHostPort_no_colon:
  "CHR '':'' \<notin> set s \<Longrightarrow> SplitHostPort s = Inl \<lparr>Err = ''missing port in address'', Addr = s\<rparr>"
  using LastIndexByteString_neg_iff [of s "CHR '':''"]
  by (simp add: SplitHostPort_def addrErr_def missingPort_def)

lemma SplitHostPort_plain_form:
  assumes "CHR '':'' \<notin> set h" "CHR ''['' \<notin> set h" "CHR '']'' \<notin> set h"
    and "CHR '':'' \<notin> set p" "CHR ''['' \<notin> set p" "CHR '']'' \<notin> set p"
  shows "SplitHostPort (h @ '':'' @ p) = Inr (h, p)"
proof -
  let ?s = "h @ CHR '':'' # p"
  have i: "LastIndexByteString ?s (CHR '':'') = int (length h)"
    using assms(4) by (rule LastIndexByteString_last)
  have z: "?s ! 0 \<noteq> CHR ''[''"
    using assms(2) by (cases h) auto
  have h: "IndexByteString h (CHR '':'') < 0"
    using assms(1) by (simp add: IndexByteString_neg_iff)
  have b1: "IndexByteString ?s (CHR ''['') < 0"
    using assms(2,5) by (simp add: IndexByteString_neg_iff)
  have b2: "IndexByteString ?s (CHR '']'') < 0"
    using assms(3,6) by (simp add: IndexByteString_neg_iff)
  have d: "drop (nat (int (length h) + 1)) ?s = p"
    using drop_prefix [of "h @ [CHR '':'']" "nat (int (length h) + 1)" p] by simp
  show ?thesis
    using z h b1 b2
    by (simp add: SplitHostPort_def SplitHostPort_tail_def slice_def Let_def i d del: drop_append)
qed

lemma SplitHostPort_bracket_form:
  assumes "CHR ''['' \<notin> set h" "CHR '']'' \<notin> set h"
    and "CHR '':'' \<notin> set p" "CHR ''['' \<notin> set p" "CHR '']'' \<notin> set p"
  shows "SplitHostPort (''['' @ h @ '']:'' @ p) = Inr (h, p)"
proof -
  let ?s = "CHR ''['' # h @ CHR '']'' # CHR '':'' # p"
  have "?s = (CHR ''['' # h @ [CHR '']'']) @ CHR '':'' # p" by simp
  then have i: "LastIndexByteString ?s (CHR '':'') = int (length h) + 2"
    using LastIndexByteString_last [OF assms(3), of "CHR ''['' # h @ [CHR '']'']"] by simp
  have "?s = (CHR ''['' # h) @ CHR '']'' # (CHR '':'' # p)" by simp
  moreover have "CHR '']'' \<notin> set (CHR ''['' # h)" using assms(2) by simp
  ultimately have e: "IndexByteString ?s (CHR '']'') = int (length h) + 1"
    using IndexByteString_first [of "CHR '']''" "CHR ''['' # h" "CHR '':'' # p"] by simp
  have b1: "IndexByteString (h @ CHR '']'' # CHR '':'' # p) (CHR ''['') < 0"
    using assms(1,4) by (simp add: IndexByteString_neg_iff)
  have b2: "IndexByteString (CHR '':'' # p) (CHR '']'') < 0"
    using assms(5) by (simp add: IndexByteString_neg_iff)
  have d: "drop (nat (int (length h) + 1 + 1)) ?s = CHR '':'' # p"
    using drop_prefix [of "CHR ''['' # h @ [CHR '']'']" "nat (int (length h) + 1 + 1)" "CHR '':'' # p"]
    by simp
  have d2: "drop (nat (int (length h) + 2 + 1)) ?s = p"
    using drop_prefix [of "CHR ''['' # h @ [CHR '']'', CHR '':'']" "nat (int (length h) + 2 + 1)" p]
    by simp
  have t: "take (nat (int (length h) + 1 - 1)) (drop (nat 1) ?s) = h"
    by simp
  have ne: "int (length h) + 1 + 1 \<noteq> int (length ?s)"
    by simp
  have b1': "IndexByteString (drop (nat 1) ?s) (CHR ''['') < 0"
    using b1 by simp
  have b2': "IndexByteString (drop (nat (int (length h) + 1 + 1)) ?s) (CHR '']'') < 0"
    using b2 d by simp
  have z: "?s ! 0 = CHR ''[''" by simp
  have "SplitHostPort ?s = Inr (h, p)"
    unfolding SplitHostPort_def SplitHostPort_tail_def slice_def Let_def i e
    using b1' b2' d2 t ne z
    by (simp del: drop_append IndexByteString.simps LastIndexByteString.simps drop_Suc_Cons
        nth_Cons_0 list.size length_append)
  then show ?thesis by simp
qed

lemma SplitHostPort_Inr_forms:
  assumes "SplitHostPort s = Inr (h, p)"
  shows "(s = h @ '':'' @ p \<and> CHR '':'' \<notin> set h \<and> CHR ''['' \<notin> set h \<and> CHR '']'' \<notin> set h
            \<and> CHR '':'' \<notin> set p \<and> CHR ''['' \<notin> set p \<and> CHR '']'' \<notin> set p) \<or>
         (s = ''['' @ h @ '']:'' @ p \<and> CHR ''['' \<notin> set h \<and> CHR '']'' \<notin> set h
            \<and> CHR '':'' \<notin> set p \<and> CHR ''['' \<notin> set p \<and> CHR '']'' \<notin> set p)"
proof -
  let ?i = "LastIndexByteString s (CHR '':'')"
  have i0: "0 \<le> ?i"
  proof (rule ccontr)
    assume "\<not> 0 \<le> ?i"
    then have "SplitHostPort s = addrErr s missingPort"
      by (simp add: SplitHostPort_def)
    with assms show False by (simp add: addrErr_def)
  qed
  then obtain a b where s: "s = a @ CHR '':'' # b" and b: "CHR '':'' \<notin> set b"
    and i: "?i = int (length a)"
    by (rule LastIndexByteString_split)
  have ta: "take (length a) s = a" and db: "drop (Suc (length a)) s = b"
    using s by simp_all
  show ?thesis
  proof (cases "s ! 0 = CHR ''[''")
    case False
    from assms False i0
    have "\<not> 0 \<le> IndexByteString (slice s 0 ?i) (CHR '':'')"
      and t: "SplitHostPort_tail s (slice s 0 ?i) 0 0 ?i = Inr (h, p)"
      by (simp_all add: SplitHostPort_def Let_def addrErr_def split: if_splits)
    then have a: "CHR '':'' \<notin> set a"
      using ta by (simp add: slice_def i IndexByteString_neg_iff [symmetric])
    from t have "h = slice s 0 ?i" and "p = drop (nat (?i + 1)) s"
      and "IndexByteString s (CHR ''['') < 0" and "IndexByteString s (CHR '']'') < 0"
      by (simp_all add: SplitHostPort_tail_def addrErr_def split: if_splits)
    then have "h = a" and "p = b" and "CHR ''['' \<notin> set s" and "CHR '']'' \<notin> set s"
      using ta db by (simp_all add: slice_def i IndexByteString_neg_iff nat_add_distrib)
    then show ?thesis using s a b by auto
  next
    case True
    let ?e = "IndexByteString s (CHR '']'')"
    from assms True i0
    have e0: "0 \<le> ?e" and ei: "?e + 1 = ?i"
      and t: "SplitHostPort_tail s (slice s 1 ?e) 1 (?e + 1) ?i = Inr (h, p)"
      by (simp_all add: SplitHostPort_def Let_def addrErr_def split: if_splits)
    from e0 obtain a' b' where s': "s = a' @ CHR '']'' # b'" and a': "CHR '']'' \<notin> set a'"
      and e: "?e = int (length a')"
      by (rule IndexByteString_split)
    have la: "length a = Suc (length a')"
      using ei e i by simp
    have "take (Suc (length a')) s = a' @ [CHR '']'']"
      using s' by simp
    with ta la have aa: "a = a' @ [CHR '']'']" by simp
    have "a' \<noteq> []"
      using True s' by auto
    then obtain h' where h': "a' = CHR ''['' # h'"
      using True s' by (cases a') auto
    have shape: "s = CHR ''['' # h' @ CHR '']'' # CHR '':'' # b"
      using s aa h' by simp
    from t have hp: "h = slice s 1 ?e" "p = drop (nat (?i + 1)) s"
      and n1: "IndexByteString (drop (nat 1) s) (CHR ''['') < 0"
      and n2: "IndexByteString (drop (nat (?e + 1)) s) (CHR '']'') < 0"
      by (simp_all add: SplitHostPort_tail_def addrErr_def split: if_splits)
    have "slice s 1 ?e = h'"
      unfolding slice_def e h' using shape h' by simp
    then have h: "h = h'" using hp(1) by simp
    have p: "p = b"
      using hp(2) db by (simp add: i nat_add_distrib)
    have "drop (nat 1) s = h' @ CHR '']'' # CHR '':'' # b"
      using shape by simp
    with n1 have o1: "CHR ''['' \<notin> set h'" "CHR ''['' \<notin> set b"
      by (simp_all add: IndexByteString_neg_iff)
    have "drop (nat (?e + 1)) s = CHR '':'' # b"
      using db ei i s by (simp add: nat_add_distrib)
    with n2 have "IndexByteString (CHR '':'' # b) (CHR '']'') < 0"
      by simp
    then have o2: "CHR '']'' \<notin> set b"
      unfolding IndexByteString_neg_iff by simp
    have o3: "CHR '']'' \<notin> set h'"
      using a' h' by simp
    show ?thesis
      using shape h p o1 o2 o3 b by simp
  qed
qed

lemma SplitHostPort_Inr_iff:
  "SplitHostPort s = Inr (h, p) \<longleftrightarrow>
     (s = h @ '':'' @ p \<and> CHR '':'' \<notin> set h \<and> CHR ''['' \<notin> set h \<and> CHR '']'' \<notin> set h
        \<and> CHR '':'' \<notin> set p \<and> CHR ''['' \<notin> set p \<and> CHR '']'' \<notin> set p) \<or>
     (s = ''['' @ h @ '']:'' @ p \<and> CHR ''['' \<notin> set h \<and> CHR '']'' \<notin> set h
        \<and> CHR '':'' \<notin> set p \<and> CHR ''['' \<notin> set p \<and> CHR '']'' \<notin> set p)"
  using SplitHostPort_Inr_forms [of s h p] SplitHostPort_plain_form [of h p]
    SplitHostPort_bracket_form [of h p]
  by blast

section \<open>What the target parser accepts (C2)\<close>

text \<open>
  Claim C2, as amended. The target parser is \<^verbatim>\<open>net.SplitHostPort\<close> on the path without its
  first byte. It returns host \<open>h\<close> and port \<open>p\<close> exactly when the fragment is
  \<open>h:p\<close> with no colon and no square bracket in \<open>h\<close> or \<open>p\<close>, or \<open>[h]:p\<close> with
  no square bracket in \<open>h\<close> and no colon or square bracket in \<open>p\<close>; either of \<open>h\<close>
  and \<open>p\<close> may be empty. On every other fragment it fails; in particular on every
  fragment without a colon, the empty one included. When it fails, both handlers answer
  with status code 400 and their parse-failure status (\<^verbatim>\<open>INVALID_HOST\<close> on the direct path,
  \<^verbatim>\<open>BAD_URL\<close> on the proxy path) and return the world unchanged: no network I/O.
\<close>

theorem C2_target_parser:
  "(SplitHostPort s = Inr (h, p) \<longleftrightarrow>
      (s = h @ '':'' @ p \<and> CHR '':'' \<notin> set h \<and> CHR ''['' \<notin> set h \<and> CHR '']'' \<notin> set h
         \<and> CHR '':'' \<notin> set p \<and> CHR ''['' \<notin> set p \<and> CHR '']'' \<notin> set p) \<or>
      (s = ''['' @ h @ '']:'' @ p \<and> CHR ''['' \<notin> set h \<and> CHR '']'' \<notin> set h
         \<and> CHR '':'' \<notin> set p \<and> CHR ''['' \<notin> set p \<and> CHR '']'' \<notin> set p)) \<and>
   (isl (SplitHostPort s) \<longleftrightarrow> (\<forall>h p. SplitHostPort s \<noteq> Inr (h, p))) \<and>
   (CHR '':'' \<notin> set s \<longrightarrow>
      SplitHostPort s = Inl \<lparr>Err = ''missing port in address'', Addr = s\<rparr>) \<and>
   (URL_Path r \<noteq> [] \<and> SplitHostPort (drop 1 (URL_Path r)) = Inl err \<longrightarrow>
      (\<exists>w'. writeJSON w 400
               \<lparr>Status = ''INVALID_HOST'', Error = AddrError_Error err, Proxy = []\<rparr> = Return w' \<and>
            plain T n r (w, st) = Return (w', st)) \<and>
      (\<exists>w'. writeJSON w 400
               \<lparr>Status = ''BAD_URL'', Error = AddrError_Error err,
                Proxy = Values_Get (URL_Query r) ''proxy''\<rparr> = Return w' \<and>
            proxyHandler_ServeHTTP T n r (w, st) = Return (w', st)))"
proof -
  have a: "isl (SplitHostPort s) \<longleftrightarrow> (\<forall>h p. SplitHostPort s \<noteq> Inr (h, p))"
    by (cases "SplitHostPort s") auto
  have b: "(\<exists>w'. writeJSON w 400
               \<lparr>Status = ''INVALID_HOST'', Error = AddrError_Error err, Proxy = []\<rparr> = Return w' \<and>
            plain T n r (w, st) = Return (w', st)) \<and>
      (\<exists>w'. writeJSON w 400
               \<lparr>Status = ''BAD_URL'', Error = AddrError_Error err,
                Proxy = Values_Get (URL_Query r) ''proxy''\<rparr> = Return w' \<and>
            proxyHandler_ServeHTTP T n r (w, st) = Return (w', st))"
    if "URL_Path r \<noteq> []" and "SplitHostPort (drop 1 (URL_Path r)) = Inl err"
    using plain_parse_failed [OF that, of T n w st] proxy_parse_failed [OF that refl, of T n w st]
    by (simp add: StatusBadRequest_def writeJSON_Return)
  show ?thesis
    using SplitHostPort_Inr_iff [of s h p] a SplitHostPort_no_colon [of s] b by blast
qed

theorem C2_target_parser_witness:
  "SplitHostPort ''127.0.0.1:1'' = Inr (''127.0.0.1'', ''1'') \<and>
   SplitHostPort ''[::1]:80'' = Inr (''::1'', ''80'') \<and>
   SplitHostPort ''xyz'' = Inl \<lparr>Err = ''missing port in address'', Addr = ''xyz''\<rparr> \<and>
   (\<exists>w'. writeJSON NewRecorder 400
            \<lparr>Status = ''INVALID_HOST'', Error = ''address xyz: missing port in address'',
             Proxy = []\<rparr> = Return w' \<and>
         plain 5 (test_network None 0 (Inl (PlainError ''unused''))) (test_request ''/xyz'' ''p:1'')
           (NewRecorder, start) = Return (w', start)) \<and>
   (\<exists>w'. writeJSON NewRecorder 400
            \<lparr>Status = ''BAD_URL'', Error = ''address xyz: missing port in address'',
             Proxy = ''p:1''\<rparr> = Return w' \<and>
         proxyHandler_ServeHTTP 5 (test_network None 0 (Inl (PlainError ''unused'')))
           (test_request ''/xyz'' ''p:1'') (NewRecorder, start) = Return (w', start))"
  using C2_target_parser [where s = "''127.0.0.1:1''" and h = "''127.0.0.1''" and p = "''1''"
      and r = "test_request ''/xyz'' ''p:1''" and T = 5 and w = NewRecorder and st = start
      and n = "test_network None 0 (Inl (PlainError ''unused''))"
      and err = "\<lparr>Err = ''missing port in address'', Addr = ''xyz''\<rparr>"]
    C2_target_parser [where s = "''[::1]:80''" and h = "''::1''" and p = "''80''"
      and r = "test_request ''/xyz'' ''p:1''" and T = 5 and w = NewRecorder and st = start
      and n = "test_network None 0 (Inl (PlainError ''unused''))"
      and err = "\<lparr>Err = ''missing port in address'', Addr = ''xyz''\<rparr>"]
    C2_target_parser [where s = "''xyz''"
      and r = "test_request ''/xyz'' ''p:1''" and T = 5 and w = NewRecorder and st = start
      and n = "test_network None 0 (Inl (PlainError ''unused''))"
      and err = "\<lparr>Err = ''missing port in address'', Addr = ''xyz''\<rparr>"]
  by (simp add: test_request_simps AddrError_Error_def)

text \<open>
  The claim as stated fails in both directions. An empty host and an empty port are
  accepted: for the path \<^verbatim>\<open>/:80\<close> the direct probe goes on to dial \<^verbatim>\<open>:80\<close>. And
  \<^verbatim>\<open>a:b:80\<close>, whose parts around the last colon are both non-empty, is rejected.
\<close>

theorem C2_counterexample:
  "SplitHostPort '':80'' = Inr ([], ''80'') \<and>
   SplitHostPort ''h:'' = Inr (''h'', []) \<and>
   SplitHostPort ''a:b:80'' = Inl \<lparr>Err = ''too many colons in address'', Addr = ''a:b:80''\<rparr> \<and>
   (case plain 5 (test_network None 0 (Inl (PlainError ''unused''))) (test_request_direct ''/:80'')
           (NewRecorder, start) of
      Panic _ \<Rightarrow> False
    | Return (w', s') \<Rightarrow>
        Code w' = Some 200 \<and> Body w' = [\<lparr>Status = ''OK'', Error = [], Proxy = []\<rparr>] \<and>
        trace s' = [EvDial '':80'', EvClose '':80''])"
  by code_simp

end
